theory Spec2Isabelle
  imports Main
begin

section \<open>Data model of \<open>app/(tabs)/index.tsx\<close>\<close>

text \<open>
  The source file holds two documents, one after the other: lines 1 to 240 (the first
  document) and lines 241 to 630 (the second document). Both declare the same interfaces
  and the same provider component; the second adds \<open>fetchNextSurah\<close> and
  \<open>fetchPreviousSurah\<close> and reworks the error handling. Functions of the second
  document keep their source names; functions of the first document carry the suffix
  \<open>1\<close>.

  JavaScript numbers that hold ordinals are modelled as \<open>int\<close>; the field \<open>text\<close>
  of an \<open>Ayah\<close> is called \<open>ayahText\<close>, since \<open>text\<close> is a keyword here. Both
  \<open>Surah\<close> and \<open>Ayah\<close> have a field \<open>number\<close>: they are written \<open>Surah.number\<close>
  and \<open>Ayah.number\<close>.
\<close>

record Surah =
  number :: int
  name :: string
  englishName :: string
  englishNameTranslation :: string
  numberOfAyahs :: int
  revelationType :: string

record Ayah =
  number :: int
  ayahText :: string
  numberInSurah :: int

record SurahData = Surah +
  ayahs :: "Ayah list"

text \<open>An \<open>Audio.Sound\<close> object is identified by the order of its creation.\<close>

type_synonym Sound = nat

text \<open>
  The values of the \<open>useState\<close> hooks of \<open>AppProvider\<close>. (The first document also
  declares \<open>currentTime\<close>, which no function reads or writes.)
\<close>

record AppState =
  showSurahs :: bool
  surahs :: "Surah list"
  selectedSurah :: "SurahData option"
  loading :: bool
  selectedAyah :: "Ayah option"
  sound :: "Sound option"

text \<open>
  \<open>AVPlaybackStatus\<close> of expo-av: either the error form (\<open>isLoaded: false\<close>, no
  \<open>didJustFinish\<close> field) or the success form (\<open>isLoaded: true\<close>) with its
  \<open>didJustFinish\<close> flag.
\<close>

datatype AVPlaybackStatus =
  AVPlaybackStatusError
| AVPlaybackStatusSuccess bool

fun isLoaded :: "AVPlaybackStatus \<Rightarrow> bool" where
  "isLoaded AVPlaybackStatusError = False"
| "isLoaded (AVPlaybackStatusSuccess b) = True"

text \<open>Reading \<open>didJustFinish\<close> from the error form gives \<open>undefined\<close>, which is falsy.\<close>

fun didJustFinish :: "AVPlaybackStatus \<Rightarrow> bool" where
  "didJustFinish AVPlaybackStatusError = False"
| "didJustFinish (AVPlaybackStatusSuccess b) = b"

text \<open>Everything the component does that is visible from outside, in order.\<close>

datatype Event =
  SetLoading bool
| SetSurahs "Surah list"
| SetSelectedSurah "SurahData option"
| SetSelectedAyah "Ayah option"
| SetSound "Sound option"
| Fetch string
| ConsoleError string
| StopAsync Sound
| UnloadAsync Sound
| CreateAsync string bool "Sound option"
| PlayAsync Sound
| SetOnPlaybackStatusUpdate Sound

text \<open>What a rejected promise carries.\<close>

datatype Rejection = FetchFailed | JsonFailed | SoundFailed

text \<open>The completion of an \<open>async\<close> function or of an awaited call.\<close>

datatype 'a Completion = Resolved 'a | Rejected Rejection

text \<open>
  The outcome of \<open>fetch(url)\<close> followed by \<open>response.json()\<close>: the fetch rejects, the
  body does not parse (or parses to something whose \<open>code\<close> cannot be read), or a JSON
  object with its \<open>code\<close> and \<open>data\<close> fields arrives.
\<close>

datatype 'a Response = FetchRejects | JsonRejects | Json int 'a

text \<open>
  The network and the playback library are not part of the repository. They are
  parameters of the model: each answer may depend on the address or sound asked for and
  on everything that happened before (the events so far).
\<close>

record Platform =
  surahIndex :: "Event list \<Rightarrow> string \<Rightarrow> (Surah list) Response"
  surahDetail :: "Event list \<Rightarrow> string \<Rightarrow> SurahData Response"
  stopRejects :: "Event list \<Rightarrow> Sound \<Rightarrow> bool"
  unloadRejects :: "Event list \<Rightarrow> Sound \<Rightarrow> bool"
  createRejects :: "Event list \<Rightarrow> string \<Rightarrow> bool"
  playRejects :: "Event list \<Rightarrow> Sound \<Rightarrow> bool"

text \<open>
  The running application: the React store the setters write to, the events so far, the
  number of sounds created so far, and for each sound the status callback registered on
  it. A callback is a closure: it is kept as the values its body reads, namely the
  render's state values (of which it reads \<open>selectedSurah\<close>, and \<open>sound\<close> through
  \<open>playAudio\<close>) and the \<open>ayah\<close> argument of the \<open>playAudio\<close> call that registered it.
\<close>

record World =
  store :: AppState
  events :: "Event list"
  sounds :: nat
  callbacks :: "Sound \<Rightarrow> (AppState \<times> Ayah) option"

type_synonym 'a Async = "World \<Rightarrow> 'a Completion \<times> World"

section \<open>Sequencing of awaited calls\<close>

text \<open>
  An \<open>async\<close> function is modelled as one step from world to world that ends in a
  completion: it runs to its end before the next event is handled. Two operations whose
  awaits interleave are outside this model.
\<close>

definition resolve :: "'a \<Rightarrow> 'a Async" where
  "resolve x w = (Resolved x, w)"

text \<open>\<open>await m; f\<close>: a rejection of \<open>m\<close> skips \<open>f\<close>.\<close>

definition await :: "'a Async \<Rightarrow> ('a \<Rightarrow> 'b Async) \<Rightarrow> 'b Async" where
  "await m f w = (case m w of
      (Resolved x, w') \<Rightarrow> f x w'
    | (Rejected e, w') \<Rightarrow> (Rejected e, w'))"

text \<open>\<open>try { m } catch (error) { h }\<close>\<close>

definition tryCatch :: "unit Async \<Rightarrow> (Rejection \<Rightarrow> unit Async) \<Rightarrow> unit Async" where
  "tryCatch m h w = (case m w of
      (Resolved x, w') \<Rightarrow> (Resolved x, w')
    | (Rejected e, w') \<Rightarrow> h e w')"

text \<open>\<open>try { m } finally { fin }\<close>, for a \<open>fin\<close> that runs to its end.\<close>

definition tryFinally :: "unit Async \<Rightarrow> (World \<Rightarrow> World) \<Rightarrow> unit Async" where
  "tryFinally m fin w = (case m w of (c, w') \<Rightarrow> (c, fin w'))"

definition emit :: "Event \<Rightarrow> World \<Rightarrow> World" where
  "emit e w = w\<lparr>events := events w @ [e]\<rparr>"

section \<open>The state setters and the platform calls\<close>

definition setLoading :: "bool \<Rightarrow> World \<Rightarrow> World" where
  "setLoading b w = emit (SetLoading b) (w\<lparr>store := (store w)\<lparr>loading := b\<rparr>\<rparr>)"

definition setSurahs :: "Surah list \<Rightarrow> World \<Rightarrow> World" where
  "setSurahs xs w = emit (SetSurahs xs) (w\<lparr>store := (store w)\<lparr>surahs := xs\<rparr>\<rparr>)"

definition setSelectedSurah :: "SurahData option \<Rightarrow> World \<Rightarrow> World" where
  "setSelectedSurah d w =
     emit (SetSelectedSurah d) (w\<lparr>store := (store w)\<lparr>selectedSurah := d\<rparr>\<rparr>)"

definition setSelectedAyah :: "Ayah option \<Rightarrow> World \<Rightarrow> World" where
  "setSelectedAyah a w =
     emit (SetSelectedAyah a) (w\<lparr>store := (store w)\<lparr>selectedAyah := a\<rparr>\<rparr>)"

definition setSound :: "Sound option \<Rightarrow> World \<Rightarrow> World" where
  "setSound s w = emit (SetSound s) (w\<lparr>store := (store w)\<lparr>sound := s\<rparr>\<rparr>)"

definition consoleError :: "string \<Rightarrow> World \<Rightarrow> World" where
  "consoleError msg w = emit (ConsoleError msg) w"

text \<open>A synchronous statement inside an \<open>async\<close> function.\<close>

definition perform :: "(World \<Rightarrow> World) \<Rightarrow> unit Async" where
  "perform f w = (Resolved (), f w)"

text \<open>\<open>await fetch(url)\<close> followed by \<open>await response.json()\<close>, for the two addresses.\<close>

definition fetchSurahIndex :: "Platform \<Rightarrow> string \<Rightarrow> (int \<times> Surah list) Async" where
  "fetchSurahIndex p url w =
     (case surahIndex p (events w) url of
        FetchRejects \<Rightarrow> (Rejected FetchFailed, emit (Fetch url) w)
      | JsonRejects \<Rightarrow> (Rejected JsonFailed, emit (Fetch url) w)
      | Json code data \<Rightarrow> (Resolved (code, data), emit (Fetch url) w))"

definition fetchSurahDetail :: "Platform \<Rightarrow> string \<Rightarrow> (int \<times> SurahData) Async" where
  "fetchSurahDetail p url w =
     (case surahDetail p (events w) url of
        FetchRejects \<Rightarrow> (Rejected FetchFailed, emit (Fetch url) w)
      | JsonRejects \<Rightarrow> (Rejected JsonFailed, emit (Fetch url) w)
      | Json code data \<Rightarrow> (Resolved (code, data), emit (Fetch url) w))"

definition stopAsync :: "Platform \<Rightarrow> Sound \<Rightarrow> unit Async" where
  "stopAsync p s w =
     (if stopRejects p (events w) s then (Rejected SoundFailed, emit (StopAsync s) w)
      else (Resolved (), emit (StopAsync s) w))"

definition unloadAsync :: "Platform \<Rightarrow> Sound \<Rightarrow> unit Async" where
  "unloadAsync p s w =
     (if unloadRejects p (events w) s then (Rejected SoundFailed, emit (UnloadAsync s) w)
      else (Resolved (), emit (UnloadAsync s) w))"

definition playAsync :: "Platform \<Rightarrow> Sound \<Rightarrow> unit Async" where
  "playAsync p s w =
     (if playRejects p (events w) s then (Rejected SoundFailed, emit (PlayAsync s) w)
      else (Resolved (), emit (PlayAsync s) w))"

text \<open>\<open>Audio.Sound.createAsync({ uri }, { shouldPlay })\<close>: a new sound, or a rejection.\<close>

definition createAsync :: "Platform \<Rightarrow> string \<Rightarrow> bool \<Rightarrow> Sound Async" where
  "createAsync p uri shouldPlay w =
     (if createRejects p (events w) uri
      then (Rejected SoundFailed, emit (CreateAsync uri shouldPlay None) w)
      else (Resolved (sounds w),
            emit (CreateAsync uri shouldPlay (Some (sounds w))) (w\<lparr>sounds := Suc (sounds w)\<rparr>)))"

definition setOnPlaybackStatusUpdate :: "Sound \<Rightarrow> AppState \<times> Ayah \<Rightarrow> World \<Rightarrow> World" where
  "setOnPlaybackStatusUpdate s cb w =
     emit (SetOnPlaybackStatusUpdate s) (w\<lparr>callbacks := (callbacks w)(s \<mapsto> cb)\<rparr>)"

section \<open>JavaScript helpers\<close>

text \<open>A template literal \<open>${n}\<close> for an integral number: decimal digits, \<open>-\<close> if negative.\<close>

fun digits :: "nat \<Rightarrow> string" where
  "digits n = (if n < 10 then [''0123456789'' ! n]
               else digits (n div 10) @ [''0123456789'' ! (n mod 10)])"

declare digits.simps [simp del]

definition toString :: "int \<Rightarrow> string" where
  "toString i = (if i < 0 then ''-'' @ digits (nat (- i)) else digits (nat i))"

text \<open>\<open>Array.prototype.findIndex\<close>: the first index whose element passes, or \<open>-1\<close>.\<close>

fun findIndexFrom :: "int \<Rightarrow> ('a \<Rightarrow> bool) \<Rightarrow> 'a list \<Rightarrow> int" where
  "findIndexFrom k P [] = - 1"
| "findIndexFrom k P (x # xs) = (if P x then k else findIndexFrom (k + 1) P xs)"

definition findIndex :: "('a \<Rightarrow> bool) \<Rightarrow> 'a list \<Rightarrow> int" where
  "findIndex P xs = findIndexFrom 0 P xs"

text \<open>An array read \<open>xs[i]\<close>: \<open>undefined\<close> (here \<open>None\<close>) outside \<open>0 .. length - 1\<close>.\<close>

definition element :: "'a list \<Rightarrow> int \<Rightarrow> 'a option" where
  "element xs i = (if 0 \<le> i \<and> i < int (length xs) then Some (xs ! nat i) else None)"

section \<open>The second document (lines 241 to 630)\<close>

text \<open>
  Lines 310 to 315 bind the state with \<open>const [sound, setSound] = useState(...)\<close>: within
  one call of \<open>AppProvider\<close> (one render) \<open>sound\<close> and \<open>selectedSurah\<close> are constants,
  and the functions declared in that call read those constants whenever they run, also
  after the state has been set anew. A function that reads state therefore takes the
  values of its render, \<open>r\<close>, as an argument, next to the world whose store the setters
  write to. The call \<open>playAudio(nextAyah)\<close> inside the status callback (line 394) is the
  \<open>playAudio\<close> of the render that registered the callback.
\<close>

definition surahListUrl :: string where
  "surahListUrl = ''https://api.alquran.cloud/v1/surah''"

definition surahUrl :: "int \<Rightarrow> string" where
  "surahUrl surahNumber =
     ''https://api.alquran.cloud/v1/surah/'' @ toString surahNumber @ ''/ar.alafasy''"

definition audioUri :: "Ayah \<Rightarrow> string" where
  "audioUri ayah =
     ''https://cdn.islamic.network/quran/audio/128/ar.alafasy/''
       @ toString (Ayah.number ayah) @ ''.mp3''"

text \<open>Lines 337 to 352.\<close>

definition fetchSurahs :: "Platform \<Rightarrow> unit Async" where
  "fetchSurahs p w =
     tryFinally
       (tryCatch
          (await (fetchSurahIndex p surahListUrl) (\<lambda>(code, data).
             if code = 200 then perform (setSurahs data)
             else perform (consoleError ''Failed to fetch surahs:'')))
          (\<lambda>error. perform (consoleError ''Error fetching Surahs:'')))
       (setLoading False)
       (setLoading True w)"

text \<open>Lines 355 to 370.\<close>

definition fetchAyahs :: "Platform \<Rightarrow> int \<Rightarrow> unit Async" where
  "fetchAyahs p surahNumber w =
     tryFinally
       (tryCatch
          (await (fetchSurahDetail p (surahUrl surahNumber)) (\<lambda>(code, data).
             if code = 200 then perform (setSelectedSurah (Some data))
             else perform (consoleError ''Failed to fetch ayahs:'')))
          (\<lambda>error. perform (consoleError ''Error fetching Ayahs:'')))
       (setLoading False)
       (setLoading True w)"

text \<open>
  Lines 373 to 402. Of the values of its render the body reads \<open>sound\<close>. The callback of
  lines 388 to 398 is registered as the pair of \<open>r\<close> and \<open>ayah\<close>, the values it closes
  over; its body is \<open>onPlaybackStatusUpdate\<close> below.
\<close>

definition playAudio :: "Platform \<Rightarrow> AppState \<Rightarrow> Ayah \<Rightarrow> unit Async" where
  "playAudio p r ayah =
     tryCatch
       (await (case sound r of
                 Some s \<Rightarrow> await (stopAsync p s) (\<lambda>_. unloadAsync p s)
               | None \<Rightarrow> resolve ()) (\<lambda>_.
        await (createAsync p (audioUri ayah) True) (\<lambda>newSound.
        await (perform (setSound (Some newSound))) (\<lambda>_.
        await (perform (setSelectedAyah (Some ayah))) (\<lambda>_.
        perform (setOnPlaybackStatusUpdate newSound (r, ayah)))))))
       (\<lambda>error. perform (consoleError ''Error playing audio:''))"

text \<open>
  Lines 388 to 398: the body of the callback that \<open>playAudio p r ayah\<close> registers. It
  reads \<open>selectedSurah\<close> of the same render and calls the same \<open>playAudio\<close>.
\<close>

definition onPlaybackStatusUpdate ::
    "Platform \<Rightarrow> AppState \<Rightarrow> Ayah \<Rightarrow> AVPlaybackStatus \<Rightarrow> unit Async" where
  "onPlaybackStatusUpdate p r ayah status =
     (if isLoaded status \<and> didJustFinish status then
        (case selectedSurah r of
           Some ss \<Rightarrow>
             (let currentIndex = findIndex (\<lambda>a. Ayah.number a = Ayah.number ayah) (ayahs ss)
              in case element (ayahs ss) (currentIndex + 1) of
                   Some nextAyah \<Rightarrow> playAudio p r nextAyah
                 | None \<Rightarrow> resolve ())
         | None \<Rightarrow> resolve ())
      else resolve ())"

text \<open>The playback library reports a status of sound \<open>s\<close> to the callback registered on it.\<close>

definition statusUpdate :: "Platform \<Rightarrow> Sound \<Rightarrow> AVPlaybackStatus \<Rightarrow> unit Async" where
  "statusUpdate p s status w =
     (case callbacks w s of
        Some (r, ayah) \<Rightarrow> onPlaybackStatusUpdate p r ayah status w
      | None \<Rightarrow> resolve () w)"

text \<open>Lines 405 to 417.\<close>

definition handleBackPress :: "Platform \<Rightarrow> AppState \<Rightarrow> unit Async" where
  "handleBackPress p r =
     tryCatch
       (await (case sound r of
                 Some s \<Rightarrow>
                   await (stopAsync p s) (\<lambda>_.
                   await (unloadAsync p s) (\<lambda>_.
                   perform (setSound None)))
               | None \<Rightarrow> resolve ()) (\<lambda>_.
        await (perform (setSelectedAyah None)) (\<lambda>_.
        perform (setSelectedSurah None))))
       (\<lambda>error. perform (consoleError ''Error stopping audio:''))"

text \<open>
  Lines 420 to 425. \<open>selectedSurah?.number\<close> is falsy when no chapter is selected and
  when the number is \<open>0\<close>.
\<close>

definition fetchNextSurah :: "Platform \<Rightarrow> AppState \<Rightarrow> unit Async" where
  "fetchNextSurah p r =
     (case selectedSurah r of
        Some ss \<Rightarrow>
          if Surah.number ss \<noteq> 0 then
            (let nextSurahNumber = (if Surah.number ss = 114 then 1 else Surah.number ss + 1)
             in fetchAyahs p nextSurahNumber)
          else resolve ()
      | None \<Rightarrow> resolve ())"

text \<open>Lines 428 to 432.\<close>

definition fetchPreviousSurah :: "Platform \<Rightarrow> AppState \<Rightarrow> unit Async" where
  "fetchPreviousSurah p r =
     (case selectedSurah r of
        Some ss \<Rightarrow>
          if Surah.number ss \<noteq> 0 \<and> Surah.number ss > 1 then
            fetchAyahs p (Surah.number ss - 1)
          else resolve ()
      | None \<Rightarrow> resolve ())"

text \<open>
  The handlers that \<open>QuranAppContent\<close> passes to the view (lines 500, 517, 534, 547 and
  551) are the functions of the latest render: their render is the store as it is when
  the user acts.
\<close>

definition pressSurah :: "Platform \<Rightarrow> int \<Rightarrow> unit Async" where
  "pressSurah p surahNumber w = fetchAyahs p surahNumber w"

definition pressBack :: "Platform \<Rightarrow> unit Async" where
  "pressBack p w = handleBackPress p (store w) w"

definition pressAyah :: "Platform \<Rightarrow> Ayah \<Rightarrow> unit Async" where
  "pressAyah p item w = playAudio p (store w) item w"

definition onRefresh :: "Platform \<Rightarrow> unit Async" where
  "onRefresh p w = fetchPreviousSurah p (store w) w"

definition onEndReached :: "Platform \<Rightarrow> unit Async" where
  "onEndReached p w = fetchNextSurah p (store w) w"

section \<open>The first document (lines 1 to 240)\<close>

text \<open>
  The same state hooks (lines 48 to 54) and the same addresses. The functions read the
  values of their render in the same way; where they differ from the second document is
  said at each.
\<close>

text \<open>Lines 61 to 71: no \<open>else\<close> branch, and \<open>setLoading(false)\<close> after the \<open>try\<close>.\<close>

definition fetchSurahs1 :: "Platform \<Rightarrow> unit Async" where
  "fetchSurahs1 p =
     await (perform (setLoading True)) (\<lambda>_.
     await (tryCatch
              (await (fetchSurahIndex p surahListUrl) (\<lambda>(code, data).
                 if code = 200 then perform (setSurahs data) else resolve ()))
              (\<lambda>error. perform (consoleError ''Error fetching Surahs:''))) (\<lambda>_.
     perform (setLoading False)))"

text \<open>Lines 74 to 84.\<close>

definition fetchAyahs1 :: "Platform \<Rightarrow> int \<Rightarrow> unit Async" where
  "fetchAyahs1 p surahNumber =
     await (perform (setLoading True)) (\<lambda>_.
     await (tryCatch
              (await (fetchSurahDetail p (surahUrl surahNumber)) (\<lambda>(code, data).
                 if code = 200 then perform (setSelectedSurah (Some data)) else resolve ()))
              (\<lambda>error. perform (consoleError ''Error fetching Ayahs:''))) (\<lambda>_.
     perform (setLoading False)))"

text \<open>
  Lines 87 to 111: the old sound is unloaded outside the \<open>try\<close> and is not stopped; the
  new sound is created without \<open>shouldPlay\<close> and started with \<open>playAsync\<close>.
\<close>

definition playAudio1 :: "Platform \<Rightarrow> AppState \<Rightarrow> Ayah \<Rightarrow> unit Async" where
  "playAudio1 p r ayah =
     await (case sound r of
              Some s \<Rightarrow> unloadAsync p s
            | None \<Rightarrow> resolve ()) (\<lambda>_.
     tryCatch
       (await (createAsync p (audioUri ayah) False) (\<lambda>newSound.
        await (perform (setSound (Some newSound))) (\<lambda>_.
        await (perform (setSelectedAyah (Some ayah))) (\<lambda>_.
        await (playAsync p newSound) (\<lambda>_.
        perform (setOnPlaybackStatusUpdate newSound (r, ayah)))))))
       (\<lambda>error. perform (consoleError ''Error playing audio:'')))"

text \<open>Lines 99 to 107.\<close>

definition onPlaybackStatusUpdate1 ::
    "Platform \<Rightarrow> AppState \<Rightarrow> Ayah \<Rightarrow> AVPlaybackStatus \<Rightarrow> unit Async" where
  "onPlaybackStatusUpdate1 p r ayah status =
     (if didJustFinish status then
        (case selectedSurah r of
           Some ss \<Rightarrow>
             (let currentIndex = findIndex (\<lambda>a. Ayah.number a = Ayah.number ayah) (ayahs ss)
              in case element (ayahs ss) (currentIndex + 1) of
                   Some nextAyah \<Rightarrow> playAudio1 p r nextAyah
                 | None \<Rightarrow> resolve ())
         | None \<Rightarrow> resolve ())
      else resolve ())"

definition statusUpdate1 :: "Platform \<Rightarrow> Sound \<Rightarrow> AVPlaybackStatus \<Rightarrow> unit Async" where
  "statusUpdate1 p s status w =
     (case callbacks w s of
        Some (r, ayah) \<Rightarrow> onPlaybackStatusUpdate1 p r ayah status w
      | None \<Rightarrow> resolve () w)"

text \<open>Lines 114 to 121: no \<open>try\<close>, and \<open>selectedAyah\<close> is not written.\<close>

definition handleBackPress1 :: "Platform \<Rightarrow> AppState \<Rightarrow> unit Async" where
  "handleBackPress1 p r =
     await (case sound r of
              Some s \<Rightarrow>
                await (stopAsync p s) (\<lambda>_.
                await (unloadAsync p s) (\<lambda>_.
                perform (setSound None)))
            | None \<Rightarrow> resolve ()) (\<lambda>_.
     perform (setSelectedSurah None))"

text \<open>The handlers of lines 165, 175 and 182.\<close>

definition pressSurah1 :: "Platform \<Rightarrow> int \<Rightarrow> unit Async" where
  "pressSurah1 p surahNumber w = fetchAyahs1 p surahNumber w"

definition pressBack1 :: "Platform \<Rightarrow> unit Async" where
  "pressBack1 p w = handleBackPress1 p (store w) w"

definition pressAyah1 :: "Platform \<Rightarrow> Ayah \<Rightarrow> unit Async" where
  "pressAyah1 p item w = playAudio1 p (store w) item w"

section \<open>Notions used in the statements\<close>

text \<open>Steps that happen one after the other, each started when the one before is over.\<close>

fun run :: "unit Async list \<Rightarrow> World \<Rightarrow> World" where
  "run [] w = w"
| "run (m # ms) w = run ms (snd (m w))"

text \<open>The status a sound reports when it has played to its end.\<close>

definition finished :: AVPlaybackStatus where
  "finished = AVPlaybackStatusSuccess True"

text \<open>
  The calls by which \<open>playAudio\<close> releases the sound held by its render, and the
  condition that the platform rejects none of the calls \<open>playAudio p r ayah\<close> makes when
  started in \<open>w\<close>.
\<close>

definition releaseCalls :: "AppState \<Rightarrow> Event list" where
  "releaseCalls r = (case sound r of Some s \<Rightarrow> [StopAsync s, UnloadAsync s] | None \<Rightarrow> [])"

definition cooperates :: "Platform \<Rightarrow> AppState \<Rightarrow> Ayah \<Rightarrow> World \<Rightarrow> bool" where
  "cooperates p r ayah w =
     ((case sound r of
         Some s \<Rightarrow> \<not> stopRejects p (events w) s \<and> \<not> unloadRejects p (events w @ [StopAsync s]) s
       | None \<Rightarrow> True)
      \<and> \<not> createRejects p (events w @ releaseCalls r) (audioUri ayah))"

text \<open>The same for \<open>playAudio1\<close>, which unloads without stopping and calls \<open>playAsync\<close>.\<close>

definition releaseCalls1 :: "AppState \<Rightarrow> Event list" where
  "releaseCalls1 r = (case sound r of Some s \<Rightarrow> [UnloadAsync s] | None \<Rightarrow> [])"

definition cooperates1 :: "Platform \<Rightarrow> AppState \<Rightarrow> Ayah \<Rightarrow> World \<Rightarrow> bool" where
  "cooperates1 p r ayah w =
     ((case sound r of
         Some s \<Rightarrow> \<not> unloadRejects p (events w) s
       | None \<Rightarrow> True)
      \<and> \<not> createRejects p (events w @ releaseCalls1 r) (audioUri ayah)
      \<and> \<not> playRejects p (events w @ releaseCalls1 r @
             [CreateAsync (audioUri ayah) False (Some (sounds w)), SetSound (Some (sounds w)),
              SetSelectedAyah (Some ayah)]) (sounds w))"

text \<open>The events an operation adds to those of the world it started in.\<close>

definition added :: "World \<Rightarrow> World \<Rightarrow> Event list" where
  "added w w' = drop (length (events w)) (events w')"

fun isSetLoading :: "Event \<Rightarrow> bool" where
  "isSetLoading (SetLoading b) = True"
| "isSetLoading e = False"

fun isSoundCall :: "Event \<Rightarrow> bool" where
  "isSoundCall (StopAsync s) = True"
| "isSoundCall (UnloadAsync s) = True"
| "isSoundCall (CreateAsync uri shouldPlay s) = True"
| "isSoundCall (PlayAsync s) = True"
| "isSoundCall (SetOnPlaybackStatusUpdate s) = True"
| "isSoundCall e = False"

text \<open>The addresses for which a run of events asked for a sound.\<close>

fun createdUris :: "Event list \<Rightarrow> string list" where
  "createdUris [] = []"
| "createdUris (CreateAsync uri shouldPlay s # es) = uri # createdUris es"
| "createdUris (e # es) = createdUris es"

text \<open>
  The sounds that exist after a run of events: those created and not unloaded since, in
  the order of their creation.
\<close>

fun liveAfter :: "Sound list \<Rightarrow> Event list \<Rightarrow> Sound list" where
  "liveAfter live [] = live"
| "liveAfter live (CreateAsync uri shouldPlay (Some s) # es) = liveAfter (live @ [s]) es"
| "liveAfter live (UnloadAsync s # es) = liveAfter (removeAll s live) es"
| "liveAfter live (e # es) = liveAfter live es"

definition liveSounds :: "Event list \<Rightarrow> Sound list" where
  "liveSounds es = liveAfter [] es"

text \<open>
  An operation keeps the loading flag in order when its first event sets the flag, its
  last event clears it, no event in between touches it, and the flag is off at the end.
\<close>

definition loadingDiscipline :: "World \<Rightarrow> unit Completion \<times> World \<Rightarrow> bool" where
  "loadingDiscipline w res =
     (case added w (snd res) of
        [] \<Rightarrow> False
      | e # es \<Rightarrow> e = SetLoading True \<and> es \<noteq> [] \<and> last es = SetLoading False
                 \<and> filter isSetLoading (butlast es) = []
                 \<and> loading (store (snd res)) = False)"

text \<open>
  In \<open>w\<close>, sound \<open>s\<close> is the one the store holds, \<open>ayah\<close> is the selected verse, and
  \<open>s\<close> carries the callback that a \<open>playAudio\<close> call of render \<open>r\<close> registered for
  \<open>ayah\<close>.
\<close>

definition playing :: "World \<Rightarrow> Sound \<Rightarrow> AppState \<Rightarrow> Ayah \<Rightarrow> bool" where
  "playing w s r ayah =
     (sound (store w) = Some s \<and> selectedAyah (store w) = Some ayah
      \<and> callbacks w s = Some (r, ayah))"

text \<open>
  Between \<open>w\<close> and \<open>w'\<close> a new sound was created for the address of \<open>ayah\<close> and is now
  playing it in the sense above; the selected chapter is the same.
\<close>

definition startedPlaying :: "bool \<Rightarrow> AppState \<Rightarrow> World \<Rightarrow> World \<Rightarrow> Ayah \<Rightarrow> bool" where
  "startedPlaying shouldPlay r w w' ayah =
     (playing w' (sounds w) r ayah
      \<and> sounds w' = Suc (sounds w)
      \<and> CreateAsync (audioUri ayah) shouldPlay (Some (sounds w)) \<in> set (added w w')
      \<and> selectedSurah (store w') = selectedSurah (store w))"

text \<open>The two parts of the address of the audio files.\<close>

definition baseAudioUrl :: string where
  "baseAudioUrl = ''https://cdn.islamic.network/quran/audio/128''"

definition reciterId :: string where
  "reciterId = ''ar.alafasy''"

section \<open>Sample data\<close>

text \<open>The state of the \<open>useState\<close> hooks at the first render, and a world that starts there.\<close>

definition initialState :: AppState where
  "initialState = \<lparr>showSurahs = False, surahs = [], selectedSurah = None, loading = False,
     selectedAyah = None, sound = None\<rparr>"

definition initialWorld :: World where
  "initialWorld = \<lparr>store = initialState, events = [], sounds = 0, callbacks = Map.empty\<rparr>"

definition verse :: "int \<Rightarrow> int \<Rightarrow> Ayah" where
  "verse n k = \<lparr>Ayah.number = n, ayahText = ''...'', numberInSurah = k\<rparr>"

text \<open>Chapter 1 (seven verses, global numbers 1 to 7).\<close>

definition alFatihah :: SurahData where
  "alFatihah = \<lparr>Surah.number = 1, name = ''Al-Fatihah'', englishName = ''Al-Faatiha'',
     englishNameTranslation = ''The Opening'', numberOfAyahs = 7, revelationType = ''Meccan'',
     ayahs = [verse 1 1, verse 2 2, verse 3 3, verse 4 4, verse 5 5, verse 6 6, verse 7 7]\<rparr>"

text \<open>Chapter 114 (six verses, global numbers 6231 to 6236).\<close>

definition anNas :: SurahData where
  "anNas = \<lparr>Surah.number = 114, name = ''An-Nas'', englishName = ''An-Naas'',
     englishNameTranslation = ''Mankind'', numberOfAyahs = 6, revelationType = ''Meccan'',
     ayahs = [verse 6231 1, verse 6232 2, verse 6233 3, verse 6234 4, verse 6235 5,
              verse 6236 6]\<rparr>"

text \<open>Chapter 113 (five verses, global numbers 6226 to 6230).\<close>

definition alFalaq :: SurahData where
  "alFalaq = \<lparr>Surah.number = 113, name = ''Al-Falaq'', englishName = ''Al-Falaq'',
     englishNameTranslation = ''The Dawn'', numberOfAyahs = 5, revelationType = ''Meccan'',
     ayahs = [verse 6226 1, verse 6227 2, verse 6228 3, verse 6229 4, verse 6230 5]\<rparr>"

text \<open>A world in which chapter \<open>d\<close> is loaded and nothing else has happened.\<close>

definition reading :: "SurahData \<Rightarrow> World" where
  "reading d = initialWorld\<lparr>store := initialState\<lparr>selectedSurah := Some d\<rparr>\<rparr>"

text \<open>
  A platform that answers every request with code 200, the index \<open>idx\<close> or the chapter
  \<open>d\<close>, and rejects no call; and a platform that gives the answer \<open>a\<close> to every request
  for the index and the answer \<open>b\<close> to every request for a chapter, and rejects no call on
  a sound.
\<close>

definition serving :: "Surah list \<Rightarrow> SurahData \<Rightarrow> Platform" where
  "serving idx d = \<lparr>surahIndex = (\<lambda>es url. Json 200 idx), surahDetail = (\<lambda>es url. Json 200 d),
     stopRejects = (\<lambda>es s. False), unloadRejects = (\<lambda>es s. False),
     createRejects = (\<lambda>es uri. False), playRejects = (\<lambda>es s. False)\<rparr>"

definition answering :: "(Surah list) Response \<Rightarrow> SurahData Response \<Rightarrow> Platform" where
  "answering a b = \<lparr>surahIndex = (\<lambda>es url. a), surahDetail = (\<lambda>es url. b),
     stopRejects = (\<lambda>es s. False), unloadRejects = (\<lambda>es s. False),
     createRejects = (\<lambda>es uri. False), playRejects = (\<lambda>es s. False)\<rparr>"

text \<open>The platform \<open>p\<close>, except that every \<open>createAsync\<close> rejects.\<close>

definition mute :: "Platform \<Rightarrow> Platform" where
  "mute p = p\<lparr>createRejects := \<lambda>es uri. True\<rparr>"

text \<open>
  The platform \<open>serving idx d\<close>, except that \<open>stopAsync\<close> and \<open>playAsync\<close> reject on a
  sound that has been unloaded. (The \<open>Audio.Sound\<close> of expo-av, the library of lines 12
  and 253, throws when one of these is called on a sound that is not loaded; its
  \<open>unloadAsync\<close> does not.)
\<close>

definition strictServing :: "Surah list \<Rightarrow> SurahData \<Rightarrow> Platform" where
  "strictServing idx d = (serving idx d)\<lparr>
     stopRejects := (\<lambda>es s. UnloadAsync s \<in> set es),
     playRejects := (\<lambda>es s. UnloadAsync s \<in> set es)\<rparr>"

section \<open>The worlds the user can reach\<close>

text \<open>
  The worlds reached from one without callbacks by what happens to the second document:
  the mount (line 326), a press on the start button (line 484), on a chapter (line 500),
  on a verse of the displayed chapter (lines 531 to 534), on the back button (line 517),
  a pull to refresh (line 547), the end of the list (line 551), and a status that a
  sound reports.
\<close>

inductive reachable :: "Platform \<Rightarrow> World \<Rightarrow> bool" for p :: Platform where
  start: "callbacks w = Map.empty \<Longrightarrow> reachable p w"
| mount: "reachable p w \<Longrightarrow> reachable p (snd (fetchSurahs p w))"
| shown: "reachable p w \<Longrightarrow> reachable p (w\<lparr>store := (store w)\<lparr>showSurahs := True\<rparr>\<rparr>)"
| surah: "reachable p w \<Longrightarrow> reachable p (snd (pressSurah p n w))"
| ayah: "reachable p w \<Longrightarrow> selectedSurah (store w) = Some d \<Longrightarrow> item \<in> set (ayahs d) \<Longrightarrow>
         reachable p (snd (pressAyah p item w))"
| leave: "reachable p w \<Longrightarrow> reachable p (snd (pressBack p w))"
| refresh: "reachable p w \<Longrightarrow> reachable p (snd (onRefresh p w))"
| endReached: "reachable p w \<Longrightarrow> reachable p (snd (onEndReached p w))"
| status: "reachable p w \<Longrightarrow> reachable p (snd (statusUpdate p s st w))"

text \<open>The same for the first document (lines 57, 151, 165, 179 to 182 and 175).\<close>

inductive reachable1 :: "Platform \<Rightarrow> World \<Rightarrow> bool" for p :: Platform where
  start1: "callbacks w = Map.empty \<Longrightarrow> reachable1 p w"
| mount1: "reachable1 p w \<Longrightarrow> reachable1 p (snd (fetchSurahs1 p w))"
| shown1: "reachable1 p w \<Longrightarrow> reachable1 p (w\<lparr>store := (store w)\<lparr>showSurahs := True\<rparr>\<rparr>)"
| surah1: "reachable1 p w \<Longrightarrow> reachable1 p (snd (pressSurah1 p n w))"
| ayah1: "reachable1 p w \<Longrightarrow> selectedSurah (store w) = Some d \<Longrightarrow> item \<in> set (ayahs d) \<Longrightarrow>
          reachable1 p (snd (pressAyah1 p item w))"
| leave1: "reachable1 p w \<Longrightarrow> reachable1 p (snd (pressBack1 p w))"
| status1: "reachable1 p w \<Longrightarrow> reachable1 p (snd (statusUpdate1 p s st w))"

text \<open>Every callback is registered for a verse of the chapter of its own render.\<close>

definition ownVerses :: "World \<Rightarrow> bool" where
  "ownVerses w =
     (\<forall>s r a. callbacks w s = Some (r, a) \<longrightarrow>
        (\<exists>d. selectedSurah r = Some d \<and> a \<in> set (ayahs d)))"

section \<open>Unfolding the operations\<close>

lemmas async_defs = resolve_def await_def tryCatch_def tryFinally_def perform_def

lemmas setter_defs = emit_def setLoading_def setSurahs_def setSelectedSurah_def
  setSelectedAyah_def setSound_def consoleError_def setOnPlaybackStatusUpdate_def

lemmas sound_defs = stopAsync_def unloadAsync_def playAsync_def createAsync_def

lemma added_append [simp]: "added w (w'\<lparr>events := events w @ es\<rparr>) = es"
  by (simp add: added_def)

subsection \<open>The two fetches\<close>

lemma fetchAyahs_unfold:
  "fetchAyahs p n w =
     (Resolved (),
      setLoading False
        (case surahDetail p (events w @ [SetLoading True]) (surahUrl n) of
           FetchRejects \<Rightarrow>
             consoleError ''Error fetching Ayahs:'' (emit (Fetch (surahUrl n)) (setLoading True w))
         | JsonRejects \<Rightarrow>
             consoleError ''Error fetching Ayahs:'' (emit (Fetch (surahUrl n)) (setLoading True w))
         | Json code data \<Rightarrow>
             if code = 200
             then setSelectedSurah (Some data) (emit (Fetch (surahUrl n)) (setLoading True w))
             else consoleError ''Failed to fetch ayahs:''
                    (emit (Fetch (surahUrl n)) (setLoading True w))))"
  by (simp add: fetchAyahs_def fetchSurahDetail_def async_defs setter_defs split: Response.split)

lemma fetchSurahs_unfold:
  "fetchSurahs p w =
     (Resolved (),
      setLoading False
        (case surahIndex p (events w @ [SetLoading True]) surahListUrl of
           FetchRejects \<Rightarrow>
             consoleError ''Error fetching Surahs:'' (emit (Fetch surahListUrl) (setLoading True w))
         | JsonRejects \<Rightarrow>
             consoleError ''Error fetching Surahs:'' (emit (Fetch surahListUrl) (setLoading True w))
         | Json code data \<Rightarrow>
             if code = 200
             then setSurahs data (emit (Fetch surahListUrl) (setLoading True w))
             else consoleError ''Failed to fetch surahs:''
                    (emit (Fetch surahListUrl) (setLoading True w))))"
  by (simp add: fetchSurahs_def fetchSurahIndex_def async_defs setter_defs split: Response.split)

lemma fetchAyahs1_unfold:
  "fetchAyahs1 p n w =
     (Resolved (),
      setLoading False
        (case surahDetail p (events w @ [SetLoading True]) (surahUrl n) of
           FetchRejects \<Rightarrow>
             consoleError ''Error fetching Ayahs:'' (emit (Fetch (surahUrl n)) (setLoading True w))
         | JsonRejects \<Rightarrow>
             consoleError ''Error fetching Ayahs:'' (emit (Fetch (surahUrl n)) (setLoading True w))
         | Json code data \<Rightarrow>
             if code = 200
             then setSelectedSurah (Some data) (emit (Fetch (surahUrl n)) (setLoading True w))
             else emit (Fetch (surahUrl n)) (setLoading True w)))"
  by (simp add: fetchAyahs1_def fetchSurahDetail_def async_defs setter_defs split: Response.split)

lemma fetchSurahs1_unfold:
  "fetchSurahs1 p w =
     (Resolved (),
      setLoading False
        (case surahIndex p (events w @ [SetLoading True]) surahListUrl of
           FetchRejects \<Rightarrow>
             consoleError ''Error fetching Surahs:'' (emit (Fetch surahListUrl) (setLoading True w))
         | JsonRejects \<Rightarrow>
             consoleError ''Error fetching Surahs:'' (emit (Fetch surahListUrl) (setLoading True w))
         | Json code data \<Rightarrow>
             if code = 200
             then setSurahs data (emit (Fetch surahListUrl) (setLoading True w))
             else emit (Fetch surahListUrl) (setLoading True w)))"
  by (simp add: fetchSurahs1_def fetchSurahIndex_def async_defs setter_defs split: Response.split)

lemma fetchAyahs_loads:
  assumes "surahDetail p (events w @ [SetLoading True]) (surahUrl n) = Json 200 d"
  shows "selectedSurah (store (snd (fetchAyahs p n w))) = Some d"
  using assms by (simp add: fetchAyahs_unfold setter_defs)

lemma fetchAyahs_added:
  "added w (snd (fetchAyahs p n w)) =
     (case surahDetail p (events w @ [SetLoading True]) (surahUrl n) of
        FetchRejects \<Rightarrow>
          [SetLoading True, Fetch (surahUrl n), ConsoleError ''Error fetching Ayahs:'',
           SetLoading False]
      | JsonRejects \<Rightarrow>
          [SetLoading True, Fetch (surahUrl n), ConsoleError ''Error fetching Ayahs:'',
           SetLoading False]
      | Json code data \<Rightarrow>
          if code = 200
          then [SetLoading True, Fetch (surahUrl n), SetSelectedSurah (Some data), SetLoading False]
          else [SetLoading True, Fetch (surahUrl n), ConsoleError ''Failed to fetch ayahs:'',
                SetLoading False])"
  by (simp add: added_def fetchAyahs_unfold setter_defs split: Response.split)

lemma fetchSurahs_added:
  "added w (snd (fetchSurahs p w)) =
     (case surahIndex p (events w @ [SetLoading True]) surahListUrl of
        FetchRejects \<Rightarrow>
          [SetLoading True, Fetch surahListUrl, ConsoleError ''Error fetching Surahs:'',
           SetLoading False]
      | JsonRejects \<Rightarrow>
          [SetLoading True, Fetch surahListUrl, ConsoleError ''Error fetching Surahs:'',
           SetLoading False]
      | Json code data \<Rightarrow>
          if code = 200
          then [SetLoading True, Fetch surahListUrl, SetSurahs data, SetLoading False]
          else [SetLoading True, Fetch surahListUrl, ConsoleError ''Failed to fetch surahs:'',
                SetLoading False])"
  by (simp add: added_def fetchSurahs_unfold setter_defs split: Response.split)

lemma fetchAyahs1_added:
  "added w (snd (fetchAyahs1 p n w)) =
     (case surahDetail p (events w @ [SetLoading True]) (surahUrl n) of
        FetchRejects \<Rightarrow>
          [SetLoading True, Fetch (surahUrl n), ConsoleError ''Error fetching Ayahs:'',
           SetLoading False]
      | JsonRejects \<Rightarrow>
          [SetLoading True, Fetch (surahUrl n), ConsoleError ''Error fetching Ayahs:'',
           SetLoading False]
      | Json code data \<Rightarrow>
          if code = 200
          then [SetLoading True, Fetch (surahUrl n), SetSelectedSurah (Some data), SetLoading False]
          else [SetLoading True, Fetch (surahUrl n), SetLoading False])"
  by (simp add: added_def fetchAyahs1_unfold setter_defs split: Response.split)

lemma fetchSurahs1_added:
  "added w (snd (fetchSurahs1 p w)) =
     (case surahIndex p (events w @ [SetLoading True]) surahListUrl of
        FetchRejects \<Rightarrow>
          [SetLoading True, Fetch surahListUrl, ConsoleError ''Error fetching Surahs:'',
           SetLoading False]
      | JsonRejects \<Rightarrow>
          [SetLoading True, Fetch surahListUrl, ConsoleError ''Error fetching Surahs:'',
           SetLoading False]
      | Json code data \<Rightarrow>
          if code = 200
          then [SetLoading True, Fetch surahListUrl, SetSurahs data, SetLoading False]
          else [SetLoading True, Fetch surahListUrl, SetLoading False])"
  by (simp add: added_def fetchSurahs1_unfold setter_defs split: Response.split)

lemma fetch_loading_off:
  "loading (store (snd (fetchSurahs p w))) = False"
  "loading (store (snd (fetchAyahs p n w))) = False"
  "loading (store (snd (fetchSurahs1 p w))) = False"
  "loading (store (snd (fetchAyahs1 p n w))) = False"
  by (simp_all add: fetchSurahs_unfold fetchAyahs_unfold fetchSurahs1_unfold fetchAyahs1_unfold
      setLoading_def emit_def)

lemma fetchSurahs_store:
  "store (snd (fetchSurahs p w)) =
     (case surahIndex p (events w @ [SetLoading True]) surahListUrl of
        Json code data \<Rightarrow>
          if code = 200 then (store w)\<lparr>surahs := data, loading := False\<rparr>
          else (store w)\<lparr>loading := False\<rparr>
      | _ \<Rightarrow> (store w)\<lparr>loading := False\<rparr>)"
  by (simp add: fetchSurahs_unfold setter_defs split: Response.split)

lemma fetchAyahs_store:
  "store (snd (fetchAyahs p n w)) =
     (case surahDetail p (events w @ [SetLoading True]) (surahUrl n) of
        Json code data \<Rightarrow>
          if code = 200 then (store w)\<lparr>selectedSurah := Some data, loading := False\<rparr>
          else (store w)\<lparr>loading := False\<rparr>
      | _ \<Rightarrow> (store w)\<lparr>loading := False\<rparr>)"
  by (simp add: fetchAyahs_unfold setter_defs split: Response.split)

subsection \<open>Playing and leaving\<close>

lemma playAudio_cooperates:
  assumes "cooperates p r a w"
  shows "playAudio p r a w =
    (Resolved (),
     w\<lparr>store := (store w)\<lparr>sound := Some (sounds w), selectedAyah := Some a\<rparr>,
       events := events w @ releaseCalls r @
         [CreateAsync (audioUri a) True (Some (sounds w)), SetSound (Some (sounds w)),
          SetSelectedAyah (Some a), SetOnPlaybackStatusUpdate (sounds w)],
       sounds := Suc (sounds w),
       callbacks := (callbacks w)(sounds w \<mapsto> (r, a))\<rparr>)"
  using assms
  by (cases "sound r")
     (simp_all add: cooperates_def releaseCalls_def playAudio_def async_defs setter_defs sound_defs)

lemma playAudio1_cooperates:
  assumes "cooperates1 p r a w"
  shows "playAudio1 p r a w =
    (Resolved (),
     w\<lparr>store := (store w)\<lparr>sound := Some (sounds w), selectedAyah := Some a\<rparr>,
       events := events w @ releaseCalls1 r @
         [CreateAsync (audioUri a) False (Some (sounds w)), SetSound (Some (sounds w)),
          SetSelectedAyah (Some a), PlayAsync (sounds w), SetOnPlaybackStatusUpdate (sounds w)],
       sounds := Suc (sounds w),
       callbacks := (callbacks w)(sounds w \<mapsto> (r, a))\<rparr>)"
  using assms
  by (cases "sound r")
     (simp_all add: cooperates1_def releaseCalls1_def playAudio1_def async_defs setter_defs sound_defs)

lemma playAudio_startedPlaying:
  "cooperates p r a w \<Longrightarrow> startedPlaying True r w (snd (playAudio p r a w)) a"
  by (simp add: playAudio_cooperates startedPlaying_def playing_def added_def)

lemma playAudio1_startedPlaying:
  "cooperates1 p r a w \<Longrightarrow> startedPlaying False r w (snd (playAudio1 p r a w)) a"
  by (simp add: playAudio1_cooperates startedPlaying_def playing_def added_def)

lemma playAudio_asks_only_for_ayah:
  "set (createdUris (added w (snd (playAudio p r v w)))) \<subseteq> {audioUri v}"
  by (cases "sound r")
     (simp_all add: playAudio_def async_defs setter_defs sound_defs added_def)

lemma playAudio1_asks_only_for_ayah:
  "set (createdUris (added w (snd (playAudio1 p r v w)))) \<subseteq> {audioUri v}"
  by (cases "sound r")
     (simp_all add: playAudio1_def async_defs setter_defs sound_defs added_def)

lemma handleBackPress_cooperates:
  assumes "case sound r of
             Some s \<Rightarrow> \<not> stopRejects p (events w) s
                       \<and> \<not> unloadRejects p (events w @ [StopAsync s]) s
           | None \<Rightarrow> True"
  shows "handleBackPress p r w =
    (Resolved (),
     w\<lparr>store := (store w)\<lparr>sound := (case sound r of Some s \<Rightarrow> None | None \<Rightarrow> sound (store w)),
                            selectedAyah := None, selectedSurah := None\<rparr>,
       events := events w
         @ (case sound r of Some s \<Rightarrow> [StopAsync s, UnloadAsync s, SetSound None] | None \<Rightarrow> [])
         @ [SetSelectedAyah None, SetSelectedSurah None]\<rparr>)"
  using assms
  by (cases "sound r") (simp_all add: handleBackPress_def async_defs setter_defs sound_defs)

lemma handleBackPress1_cooperates:
  assumes "case sound r of
             Some s \<Rightarrow> \<not> stopRejects p (events w) s
                       \<and> \<not> unloadRejects p (events w @ [StopAsync s]) s
           | None \<Rightarrow> True"
  shows "handleBackPress1 p r w =
    (Resolved (),
     w\<lparr>store := (store w)\<lparr>sound := (case sound r of Some s \<Rightarrow> None | None \<Rightarrow> sound (store w)),
                            selectedSurah := None\<rparr>,
       events := events w
         @ (case sound r of Some s \<Rightarrow> [StopAsync s, UnloadAsync s, SetSound None] | None \<Rightarrow> [])
         @ [SetSelectedSurah None]\<rparr>)"
  using assms
  by (cases "sound r") (simp_all add: handleBackPress1_def async_defs setter_defs sound_defs)

subsection \<open>The index lookup of the status callback\<close>

lemma findIndexFrom_none:
  "\<forall>x\<in>set xs. \<not> P x \<Longrightarrow> findIndexFrom k P xs = - 1"
  by (induction xs arbitrary: k) auto

lemma findIndexFrom_nth:
  "i < length xs \<Longrightarrow> P (xs ! i) \<Longrightarrow> \<forall>j<i. \<not> P (xs ! j) \<Longrightarrow>
   findIndexFrom k P xs = k + int i"
proof (induction xs arbitrary: k i)
  case Nil
  then show ?case by simp
next
  case (Cons x xs)
  show ?case
  proof (cases i)
    case 0
    with Cons.prems show ?thesis by simp
  next
    case (Suc m)
    from Cons.prems Suc have "\<not> P x" by auto
    moreover from Cons.prems Suc have "m < length xs" "P (xs ! m)" by auto
    moreover from Cons.prems Suc have "\<forall>j<m. \<not> P (xs ! j)" by auto
    ultimately show ?thesis using Cons.IH[of m "k + 1"] Suc by simp
  qed
qed

lemma findIndex_distinct:
  assumes "distinct (map f xs)" and "i < length xs"
  shows "findIndex (\<lambda>a. f a = f (xs ! i)) xs = int i"
proof -
  have "\<forall>j<i. f (xs ! j) \<noteq> f (xs ! i)"
  proof (intro allI impI)
    fix j assume "j < i"
    with assms show "f (xs ! j) \<noteq> f (xs ! i)"
      by (auto simp: distinct_conv_nth)
  qed
  with assms(2) show ?thesis
    using findIndexFrom_nth[of i xs "\<lambda>a. f a = f (xs ! i)" 0] by (simp add: findIndex_def)
qed

lemma findIndex_absent:
  assumes "f y \<notin> f ` set xs"
  shows "findIndex (\<lambda>a. f a = f y) xs = - 1"
proof -
  from assms have "\<forall>x\<in>set xs. f x \<noteq> f y" by (metis imageI)
  then show ?thesis by (simp add: findIndex_def findIndexFrom_none)
qed

lemma element_Suc:
  "element xs (int i + 1) = (if Suc i < length xs then Some (xs ! Suc i) else None)"
  by (auto simp: element_def nat_add_distrib)

lemma element_0: "xs \<noteq> [] \<Longrightarrow> element xs 0 = Some (hd xs)"
  by (cases xs) (simp_all add: element_def)

lemma callback_next:
  assumes "selectedSurah r = Some ss" and "distinct (map Ayah.number (ayahs ss))"
    and "i < length (ayahs ss)"
  shows "onPlaybackStatusUpdate p r (ayahs ss ! i) (AVPlaybackStatusSuccess True) w =
           (if Suc i < length (ayahs ss) then playAudio p r (ayahs ss ! Suc i) w
            else (Resolved (), w))"
    and "onPlaybackStatusUpdate1 p r (ayahs ss ! i) (AVPlaybackStatusSuccess True) w =
           (if Suc i < length (ayahs ss) then playAudio1 p r (ayahs ss ! Suc i) w
            else (Resolved (), w))"
  using assms
  by (simp_all add: onPlaybackStatusUpdate_def onPlaybackStatusUpdate1_def
      findIndex_distinct element_Suc resolve_def)

lemma callback_absent:
  assumes "selectedSurah r = Some ss" and "ayahs ss \<noteq> []"
    and "Ayah.number ayah \<notin> Ayah.number ` set (ayahs ss)"
  shows "onPlaybackStatusUpdate p r ayah (AVPlaybackStatusSuccess True) w =
           playAudio p r (hd (ayahs ss)) w"
    and "onPlaybackStatusUpdate1 p r ayah (AVPlaybackStatusSuccess True) w =
           playAudio1 p r (hd (ayahs ss)) w"
  using assms
  by (simp_all add: onPlaybackStatusUpdate_def onPlaybackStatusUpdate1_def
      findIndex_absent element_0)

subsection \<open>Live sounds\<close>

lemma liveAfter_append: "liveAfter live (es @ es') = liveAfter (liveAfter live es) es'"
  by (induction live es rule: liveAfter.induct) simp_all

lemma liveSounds_append: "liveSounds (es @ es') = liveAfter (liveSounds es) es'"
  by (simp add: liveSounds_def liveAfter_append)

subsection \<open>The sample data\<close>

lemma digits_small: "n < 10 \<Longrightarrow> digits n = [''0123456789'' ! n]"
  by (simp add: digits.simps)

lemma digits_big: "\<not> n < 10 \<Longrightarrow> digits n = digits (n div 10) @ [''0123456789'' ! (n mod 10)]"
  by (subst digits.simps) simp

lemma toString_samples:
  "toString 1 = ''1''" "toString 114 = ''114''" "toString 6236 = ''6236''"
  by (simp_all add: toString_def digits_small digits_big)

lemma serving_simps [simp]:
  "stopRejects (serving idx d) es s = False" "unloadRejects (serving idx d) es s = False"
  "surahDetail (serving idx d) es url = Json 200 d"
  "surahIndex (serving idx d) es url = Json 200 idx"
  by (simp_all add: serving_def)

lemma serving_cooperates [simp]:
  "cooperates (serving idx d) r a w" "cooperates1 (serving idx d) r a w"
  by (simp_all add: cooperates_def cooperates1_def serving_def split: option.split)

lemma reading_simps [simp]:
  "store (reading d) = initialState\<lparr>selectedSurah := Some d\<rparr>"
  "events (reading d) = []" "sounds (reading d) = 0" "callbacks (reading d) = Map.empty"
  by (simp_all add: reading_def initialWorld_def)

lemma initialState_simps [simp]:
  "sound initialState = None" "selectedAyah initialState = None"
  "selectedSurah initialState = None" "loading initialState = False"
  "surahs initialState = []"
  by (simp_all add: initialState_def)

lemma sample_chapters [simp]:
  "ayahs alFatihah = [verse 1 1, verse 2 2, verse 3 3, verse 4 4, verse 5 5, verse 6 6, verse 7 7]"
  "ayahs alFalaq = [verse 6226 1, verse 6227 2, verse 6228 3, verse 6229 4, verse 6230 5]"
  "ayahs anNas = [verse 6231 1, verse 6232 2, verse 6233 3, verse 6234 4, verse 6235 5,
                  verse 6236 6]"
  "Surah.number alFatihah = 1" "Surah.number alFalaq = 113" "Surah.number anNas = 114"
  by (simp_all add: alFatihah_def alFalaq_def anNas_def)

lemma verse_simps [simp]:
  "Ayah.number (verse n k) = n" "numberInSurah (verse n k) = k"
  "(verse n k = verse n' k') = (n = n' \<and> k = k')"
  by (auto simp: verse_def)

lemma pressAyah_serving:
  "snd (pressAyah (serving idx d) a w) =
     w\<lparr>store := (store w)\<lparr>sound := Some (sounds w), selectedAyah := Some a\<rparr>,
       events := events w @ releaseCalls (store w) @
         [CreateAsync (audioUri a) True (Some (sounds w)), SetSound (Some (sounds w)),
          SetSelectedAyah (Some a), SetOnPlaybackStatusUpdate (sounds w)],
       sounds := Suc (sounds w),
       callbacks := (callbacks w)(sounds w \<mapsto> (store w, a))\<rparr>"
  by (simp add: pressAyah_def playAudio_cooperates)

lemma pressAyah1_serving:
  "snd (pressAyah1 (serving idx d) a w) =
     w\<lparr>store := (store w)\<lparr>sound := Some (sounds w), selectedAyah := Some a\<rparr>,
       events := events w @ releaseCalls1 (store w) @
         [CreateAsync (audioUri a) False (Some (sounds w)), SetSound (Some (sounds w)),
          SetSelectedAyah (Some a), PlayAsync (sounds w), SetOnPlaybackStatusUpdate (sounds w)],
       sounds := Suc (sounds w),
       callbacks := (callbacks w)(sounds w \<mapsto> (store w, a))\<rparr>"
  by (simp add: pressAyah1_def playAudio1_cooperates)

subsection \<open>The callbacks of the worlds the user can reach\<close>

lemma callbacks_fetch:
  "callbacks (snd (fetchSurahs p w)) = callbacks w"
  "callbacks (snd (fetchAyahs p n w)) = callbacks w"
  "callbacks (snd (fetchSurahs1 p w)) = callbacks w"
  "callbacks (snd (fetchAyahs1 p n w)) = callbacks w"
  by (simp_all add: fetchSurahs_unfold fetchAyahs_unfold fetchSurahs1_unfold fetchAyahs1_unfold
      setter_defs split: Response.split)

lemma callbacks_navigate:
  "callbacks (snd (fetchNextSurah p r w)) = callbacks w"
  "callbacks (snd (fetchPreviousSurah p r w)) = callbacks w"
  by (simp_all add: fetchNextSurah_def fetchPreviousSurah_def resolve_def Let_def
      callbacks_fetch split: option.split)

lemma callbacks_back:
  "callbacks (snd (handleBackPress p r w)) = callbacks w"
  "callbacks (snd (handleBackPress1 p r w)) = callbacks w"
  by (simp_all add: handleBackPress_def handleBackPress1_def async_defs setter_defs sound_defs
      split: option.split)

lemma callbacks_playAudio:
  "callbacks (snd (playAudio p r a w)) = callbacks w
   \<or> callbacks (snd (playAudio p r a w)) = (callbacks w)(sounds w \<mapsto> (r, a))"
  by (cases "sound r")
     (simp_all add: playAudio_def async_defs setter_defs sound_defs)

lemma callbacks_playAudio1:
  "callbacks (snd (playAudio1 p r a w)) = callbacks w
   \<or> callbacks (snd (playAudio1 p r a w)) = (callbacks w)(sounds w \<mapsto> (r, a))"
  by (cases "sound r")
     (simp_all add: playAudio1_def async_defs setter_defs sound_defs)

lemma ownVerses_playAudio:
  assumes "ownVerses w" and "selectedSurah r = Some d" and "a \<in> set (ayahs d)"
  shows "ownVerses (snd (playAudio p r a w))"
  using callbacks_playAudio [of p r a w] assms
  by (auto simp: ownVerses_def split: if_splits)

lemma ownVerses_playAudio1:
  assumes "ownVerses w" and "selectedSurah r = Some d" and "a \<in> set (ayahs d)"
  shows "ownVerses (snd (playAudio1 p r a w))"
  using callbacks_playAudio1 [of p r a w] assms
  by (auto simp: ownVerses_def split: if_splits)

lemma element_in_set: "element xs k = Some x \<Longrightarrow> x \<in> set xs"
  by (auto simp: element_def split: if_splits)

lemma ownVerses_statusUpdate:
  assumes "ownVerses w"
  shows "ownVerses (snd (statusUpdate p s st w))"
proof (cases "callbacks w s")
  case None
  with assms show ?thesis by (simp add: statusUpdate_def resolve_def)
next
  case (Some cb)
  obtain r a where cb: "cb = (r, a)" by (cases cb)
  from assms Some cb have "\<exists>d. selectedSurah r = Some d \<and> a \<in> set (ayahs d)"
    unfolding ownVerses_def by blast
  then obtain d where d: "selectedSurah r = Some d" "a \<in> set (ayahs d)"
    by blast
  show ?thesis
  proof (cases "element (ayahs d)
      (findIndex (\<lambda>x. Ayah.number x = Ayah.number a) (ayahs d) + 1)")
    case None
    with assms Some cb d show ?thesis
      by (simp add: statusUpdate_def onPlaybackStatusUpdate_def resolve_def)
  next
    case (Some nextAyah)
    then have "nextAyah \<in> set (ayahs d)" by (rule element_in_set)
    with assms d have "ownVerses (snd (playAudio p r nextAyah w))"
      by (simp add: ownVerses_playAudio)
    with assms \<open>callbacks w s = Some cb\<close> cb d Some show ?thesis
      by (simp add: statusUpdate_def onPlaybackStatusUpdate_def resolve_def)
  qed
qed

lemma ownVerses_statusUpdate1:
  assumes "ownVerses w"
  shows "ownVerses (snd (statusUpdate1 p s st w))"
proof (cases "callbacks w s")
  case None
  with assms show ?thesis by (simp add: statusUpdate1_def resolve_def)
next
  case (Some cb)
  obtain r a where cb: "cb = (r, a)" by (cases cb)
  from assms Some cb have "\<exists>d. selectedSurah r = Some d \<and> a \<in> set (ayahs d)"
    unfolding ownVerses_def by blast
  then obtain d where d: "selectedSurah r = Some d" "a \<in> set (ayahs d)"
    by blast
  show ?thesis
  proof (cases "element (ayahs d)
      (findIndex (\<lambda>x. Ayah.number x = Ayah.number a) (ayahs d) + 1)")
    case None
    with assms Some cb d show ?thesis
      by (simp add: statusUpdate1_def onPlaybackStatusUpdate1_def resolve_def)
  next
    case (Some nextAyah)
    then have "nextAyah \<in> set (ayahs d)" by (rule element_in_set)
    with assms d have "ownVerses (snd (playAudio1 p r nextAyah w))"
      by (simp add: ownVerses_playAudio1)
    with assms \<open>callbacks w s = Some cb\<close> cb d Some show ?thesis
      by (simp add: statusUpdate1_def onPlaybackStatusUpdate1_def resolve_def)
  qed
qed

lemma ownVerses_callbacks: "callbacks w' = callbacks w \<Longrightarrow> ownVerses w \<Longrightarrow> ownVerses w'"
  by (simp add: ownVerses_def)

lemma reachable_ownVerses: "reachable p w \<Longrightarrow> ownVerses w"
proof (induction rule: reachable.induct)
  case (start w)
  then show ?case by (simp add: ownVerses_def)
next
  case (mount w)
  then show ?case by (auto simp: callbacks_fetch intro: ownVerses_callbacks [rotated])
next
  case (shown w)
  then show ?case by (simp add: ownVerses_def)
next
  case (surah w n)
  then show ?case
    by (auto simp: pressSurah_def callbacks_fetch intro: ownVerses_callbacks [rotated])
next
  case (ayah w d item)
  then show ?case by (simp add: pressAyah_def ownVerses_playAudio)
next
  case (leave w)
  then show ?case
    by (auto simp: pressBack_def callbacks_back intro: ownVerses_callbacks [rotated])
next
  case (refresh w)
  then show ?case
    by (auto simp: onRefresh_def callbacks_navigate intro: ownVerses_callbacks [rotated])
next
  case (endReached w)
  then show ?case
    by (auto simp: onEndReached_def callbacks_navigate intro: ownVerses_callbacks [rotated])
next
  case (status w s st)
  then show ?case by (simp add: ownVerses_statusUpdate)
qed

lemma reachable1_ownVerses: "reachable1 p w \<Longrightarrow> ownVerses w"
proof (induction rule: reachable1.induct)
  case (start1 w)
  then show ?case by (simp add: ownVerses_def)
next
  case (mount1 w)
  then show ?case by (auto simp: callbacks_fetch intro: ownVerses_callbacks [rotated])
next
  case (shown1 w)
  then show ?case by (simp add: ownVerses_def)
next
  case (surah1 w n)
  then show ?case
    by (auto simp: pressSurah1_def callbacks_fetch intro: ownVerses_callbacks [rotated])
next
  case (ayah1 w d item)
  then show ?case by (simp add: pressAyah1_def ownVerses_playAudio1)
next
  case (leave1 w)
  then show ?case
    by (auto simp: pressBack1_def callbacks_back intro: ownVerses_callbacks [rotated])
next
  case (status1 w s st)
  then show ?case by (simp add: ownVerses_statusUpdate1)
qed

lemma registered_callback_verse:
  assumes "reachable p w \<or> reachable1 p w" and "callbacks w s = Some (r, a)"
  shows "\<exists>ss i. selectedSurah r = Some ss \<and> i < length (ayahs ss) \<and> a = ayahs ss ! i"
proof -
  from assms(1) have "ownVerses w"
    by (auto dest: reachable_ownVerses reachable1_ownVerses)
  with assms(2) have "\<exists>d. selectedSurah r = Some d \<and> a \<in> set (ayahs d)"
    unfolding ownVerses_def by blast
  then show ?thesis by (metis in_set_conv_nth)
qed

subsection \<open>What the status callback does\<close>

lemma playAudio_keeps_chapter:
  "selectedSurah (store (snd (playAudio p r a w))) = selectedSurah (store w)"
  "selectedSurah (store (snd (playAudio1 p r a w))) = selectedSurah (store w)"
  by (cases "sound r"; simp add: playAudio_def playAudio1_def async_defs setter_defs sound_defs)+

lemma statusUpdate_next:
  assumes "callbacks w s = Some (r, ayahs ss ! i)"
    and "selectedSurah r = Some ss"
    and "i < length (ayahs ss)"
    and "distinct (map Ayah.number (ayahs ss))"
  shows "statusUpdate p s (AVPlaybackStatusSuccess True) w
        = (if Suc i < length (ayahs ss) then playAudio p r (ayahs ss ! Suc i) w
           else (Resolved (), w))"
    and "statusUpdate1 p s (AVPlaybackStatusSuccess True) w
        = (if Suc i < length (ayahs ss) then playAudio1 p r (ayahs ss ! Suc i) w
           else (Resolved (), w))"
  using assms by (simp_all add: statusUpdate_def statusUpdate1_def callback_next)

lemma playAudio_stop_rejected:
  assumes "sound r = Some s" and "stopRejects p (events w) s"
  shows "playAudio p r a w =
    (Resolved (), w\<lparr>events := events w @ [StopAsync s, ConsoleError ''Error playing audio:'']\<rparr>)"
  using assms by (simp add: playAudio_def async_defs setter_defs sound_defs)

lemma strictServing_simps [simp]:
  "stopRejects (strictServing idx d) es s = (UnloadAsync s \<in> set es)"
  "playRejects (strictServing idx d) es s = (UnloadAsync s \<in> set es)"
  "unloadRejects (strictServing idx d) es s = False"
  "createRejects (strictServing idx d) es uri = False"
  by (simp_all add: strictServing_def serving_def)

lemma strictServing_cooperates:
  "cooperates (strictServing idx d) r a w =
     (case sound r of Some s \<Rightarrow> UnloadAsync s \<notin> set (events w) | None \<Rightarrow> True)"
  "cooperates1 (strictServing idx d) r a w = (UnloadAsync (sounds w) \<notin> set (events w)
      \<and> (case sound r of Some s \<Rightarrow> s \<noteq> sounds w | None \<Rightarrow> True))"
  by (auto simp: cooperates_def cooperates1_def releaseCalls1_def split: option.split)

lemma after_swap:
  "run [pressAyah (serving [] anNas) v, onEndReached (serving [] anNas)] (reading alFalaq)
     = snd (fetchAyahs (serving [] anNas) 114
         (snd (pressAyah (serving [] anNas) v (reading alFalaq))))"
  by (simp add: onEndReached_def fetchNextSurah_def pressAyah_serving)

section \<open>Navigation between chapters\<close>

text \<open>
  Claim C2. For a render whose selected chapter has an ordinal \<open>n\<close> between 1 and 114,
  \<open>fetchNextSurah\<close> is the call \<open>fetchAyahs\<close> for the ordinal \<open>n mod 114 + 1\<close> (so for
  chapter 114 it is the call for chapter 1), and when the platform answers that request
  with code 200 the chapter it sends becomes the selected chapter.
\<close>

theorem fetchNextSurah_wraps:
  assumes "selectedSurah r = Some ss" and "1 \<le> Surah.number ss" and "Surah.number ss \<le> 114"
  shows "fetchNextSurah p r w = fetchAyahs p (Surah.number ss mod 114 + 1) w
    \<and> (\<forall>d. surahDetail p (events w @ [SetLoading True])
               (surahUrl (Surah.number ss mod 114 + 1)) = Json 200 d
          \<longrightarrow> selectedSurah (store (snd (fetchNextSurah p r w))) = Some d)"
proof -
  have call: "fetchNextSurah p r w = fetchAyahs p (Surah.number ss mod 114 + 1) w"
  proof (cases "Surah.number ss = 114")
    case True
    with assms show ?thesis by (simp add: fetchNextSurah_def)
  next
    case False
    with assms have "Surah.number ss mod 114 = Surah.number ss" by simp
    with assms False show ?thesis by (simp add: fetchNextSurah_def)
  qed
  then show ?thesis by (simp add: fetchAyahs_loads)
qed

text \<open>From chapter 114, on a platform that serves chapter 1: chapter 1 is asked for and loaded.\<close>

theorem fetchNextSurah_wraps_witness:
  "selectedSurah (store (reading anNas)) = Some anNas
   \<and> 1 \<le> Surah.number anNas \<and> Surah.number anNas \<le> 114
   \<and> fetchNextSurah (serving [] alFatihah) (store (reading anNas)) (reading anNas)
       = fetchAyahs (serving [] alFatihah) 1 (reading anNas)
   \<and> selectedSurah (store (snd (fetchNextSurah (serving [] alFatihah) (store (reading anNas))
       (reading anNas)))) = Some alFatihah"
proof -
  have sel: "selectedSurah (store (reading anNas)) = Some anNas"
    by simp
  have lo: "1 \<le> Surah.number anNas" and hi: "Surah.number anNas \<le> 114"
    and n: "Surah.number anNas mod 114 + 1 = 1"
    by simp_all
  note t = fetchNextSurah_wraps [OF sel lo hi, of "serving [] alFatihah" "reading anNas"]
  from t have a: "fetchNextSurah (serving [] alFatihah) (store (reading anNas)) (reading anNas)
       = fetchAyahs (serving [] alFatihah) 1 (reading anNas)"
    by (simp add: n)
  from t [THEN conjunct2] have b: "selectedSurah (store (snd (fetchNextSurah
       (serving [] alFatihah) (store (reading anNas)) (reading anNas)))) = Some alFatihah"
    by simp
  from sel lo hi a b show ?thesis by (intro conjI)
qed

text \<open>
  Claim C3. For a render whose selected chapter has an ordinal \<open>n\<close> between 2 and 114,
  \<open>fetchPreviousSurah\<close> is the call \<open>fetchAyahs\<close> for the ordinal \<open>n - 1\<close>, and the
  chapter the platform sends with code 200 becomes the selected chapter; for \<open>n = 1\<close>
  it does nothing: the world, and so the selected chapter, stays as it is.
\<close>

theorem fetchPreviousSurah_clamps:
  assumes "selectedSurah r = Some ss" and "1 \<le> Surah.number ss" and "Surah.number ss \<le> 114"
  shows "(2 \<le> Surah.number ss \<longrightarrow>
            fetchPreviousSurah p r w = fetchAyahs p (Surah.number ss - 1) w
          \<and> (\<forall>d. surahDetail p (events w @ [SetLoading True])
                     (surahUrl (Surah.number ss - 1)) = Json 200 d
                \<longrightarrow> selectedSurah (store (snd (fetchPreviousSurah p r w))) = Some d))
    \<and> (Surah.number ss = 1 \<longrightarrow> fetchPreviousSurah p r w = (Resolved (), w))"
  using assms by (auto simp: fetchPreviousSurah_def fetchAyahs_loads resolve_def)

text \<open>From chapter 114 chapter 113 is asked for; from chapter 1 nothing happens.\<close>

theorem fetchPreviousSurah_clamps_witness:
  "selectedSurah (store (reading anNas)) = Some anNas
   \<and> 2 \<le> Surah.number anNas \<and> Surah.number anNas \<le> 114
   \<and> fetchPreviousSurah (serving [] alFalaq) (store (reading anNas)) (reading anNas)
       = fetchAyahs (serving [] alFalaq) 113 (reading anNas)
   \<and> selectedSurah (store (snd (fetchPreviousSurah (serving [] alFalaq)
       (store (reading anNas)) (reading anNas)))) = Some alFalaq
   \<and> selectedSurah (store (reading alFatihah)) = Some alFatihah
   \<and> Surah.number alFatihah = 1
   \<and> fetchPreviousSurah (serving [] anNas) (store (reading alFatihah)) (reading alFatihah)
       = (Resolved (), reading alFatihah)"
proof -
  have sel: "selectedSurah (store (reading d)) = Some d" for d
    by simp
  have n: "Surah.number anNas = 114" and m: "Surah.number alFatihah = 1"
    by simp_all
  have r: "1 \<le> Surah.number anNas" "Surah.number anNas \<le> 114"
    "1 \<le> Surah.number alFatihah" "Surah.number alFatihah \<le> 114"
    by simp_all
  note t = fetchPreviousSurah_clamps [OF sel r(1,2), of "serving [] alFalaq" "reading anNas"]
  note u = fetchPreviousSurah_clamps [OF sel r(3,4), of "serving [] anNas" "reading alFatihah"]
  have two: "2 \<le> Surah.number anNas" by simp
  from t [THEN conjunct1, THEN mp, OF two, THEN conjunct1]
  have a: "fetchPreviousSurah (serving [] alFalaq) (store (reading anNas))
       (reading anNas) = fetchAyahs (serving [] alFalaq) 113 (reading anNas)"
    by (simp only: n) simp
  from t [THEN conjunct1, THEN mp, OF two, THEN conjunct2]
  have b: "selectedSurah (store (snd (fetchPreviousSurah (serving [] alFalaq)
       (store (reading anNas)) (reading anNas)))) = Some alFalaq"
    by simp
  from u [THEN conjunct2, THEN mp, OF m]
  have c: "fetchPreviousSurah (serving [] anNas) (store (reading alFatihah))
       (reading alFatihah) = (Resolved (), reading alFatihah)" .
  from sel [of anNas] two r(2) a b sel [of alFatihah] m c show ?thesis by (intro conjI)
qed

section \<open>Fetching\<close>

text \<open>
  Claim C8. In both documents \<open>fetchSurahs\<close> and \<open>fetchAyahs\<close> keep the loading flag in
  order on every path: whatever the platform answers, the first thing the operation does
  is \<open>setLoading(true)\<close>, the last is \<open>setLoading(false)\<close>, nothing in between touches
  the flag, and the flag is off when the operation is over.
\<close>

theorem loading_flag_discipline:
  "loadingDiscipline w (fetchSurahs p w) \<and> loadingDiscipline w (fetchAyahs p n w)
   \<and> loadingDiscipline w (fetchSurahs1 p w) \<and> loadingDiscipline w (fetchAyahs1 p n w)"
proof (intro conjI)
  show "loadingDiscipline w (fetchSurahs p w)"
    by (simp add: loadingDiscipline_def fetchSurahs_added fetch_loading_off
        split: Response.split)
  show "loadingDiscipline w (fetchAyahs p n w)"
    by (simp add: loadingDiscipline_def fetchAyahs_added fetch_loading_off
        split: Response.split)
  show "loadingDiscipline w (fetchSurahs1 p w)"
    by (simp add: loadingDiscipline_def fetchSurahs1_added fetch_loading_off
        split: Response.split)
  show "loadingDiscipline w (fetchAyahs1 p n w)"
    by (simp add: loadingDiscipline_def fetchAyahs1_added fetch_loading_off
        split: Response.split)
qed

text \<open>
  Claim C7. In the second document, when the answer to \<open>fetchSurahs\<close> or to
  \<open>fetchAyahs\<close> is anything but a JSON object with code 200 (the fetch rejects, the body
  does not parse, or the code is another one), the operation resolves, it logs one error
  between the two writes of the loading flag and calls no other setter, and the store is
  what it was before, with the loading flag off: the chapter list, respectively the
  selected chapter, is unchanged.
\<close>

theorem fetch_failure_keeps_state:
  "((\<forall>d. surahIndex p (events w @ [SetLoading True]) surahListUrl \<noteq> Json 200 d) \<longrightarrow>
      fst (fetchSurahs p w) = Resolved ()
    \<and> surahs (store (snd (fetchSurahs p w))) = surahs (store w)
    \<and> store (snd (fetchSurahs p w)) = (store w)\<lparr>loading := False\<rparr>
    \<and> (\<exists>msg. added w (snd (fetchSurahs p w))
           = [SetLoading True, Fetch surahListUrl, ConsoleError msg, SetLoading False]))
   \<and> ((\<forall>d. surahDetail p (events w @ [SetLoading True]) (surahUrl n) \<noteq> Json 200 d) \<longrightarrow>
      fst (fetchAyahs p n w) = Resolved ()
    \<and> selectedSurah (store (snd (fetchAyahs p n w))) = selectedSurah (store w)
    \<and> store (snd (fetchAyahs p n w)) = (store w)\<lparr>loading := False\<rparr>
    \<and> (\<exists>msg. added w (snd (fetchAyahs p n w))
           = [SetLoading True, Fetch (surahUrl n), ConsoleError msg, SetLoading False]))"
proof (intro conjI impI)
  assume f: "\<forall>d. surahIndex p (events w @ [SetLoading True]) surahListUrl \<noteq> Json 200 d"
  show "fst (fetchSurahs p w) = Resolved ()" by (simp add: fetchSurahs_unfold)
  from f show st: "store (snd (fetchSurahs p w)) = (store w)\<lparr>loading := False\<rparr>"
    by (auto simp: fetchSurahs_store split: Response.split)
  then show "surahs (store (snd (fetchSurahs p w))) = surahs (store w)" by simp
  from f show "\<exists>msg. added w (snd (fetchSurahs p w))
           = [SetLoading True, Fetch surahListUrl, ConsoleError msg, SetLoading False]"
    by (auto simp: fetchSurahs_added split: Response.split)
next
  assume f: "\<forall>d. surahDetail p (events w @ [SetLoading True]) (surahUrl n) \<noteq> Json 200 d"
  show "fst (fetchAyahs p n w) = Resolved ()" by (simp add: fetchAyahs_unfold)
  from f show st: "store (snd (fetchAyahs p n w)) = (store w)\<lparr>loading := False\<rparr>"
    by (auto simp: fetchAyahs_store split: Response.split)
  then show "selectedSurah (store (snd (fetchAyahs p n w))) = selectedSurah (store w)" by simp
  from f show "\<exists>msg. added w (snd (fetchAyahs p n w))
           = [SetLoading True, Fetch (surahUrl n), ConsoleError msg, SetLoading False]"
    by (auto simp: fetchAyahs_added split: Response.split)
qed

text \<open>
  With chapter 1 loaded and an empty list: every fetch rejects, every body fails to
  parse, or every answer carries code 404. List and chapter stay as they are.
\<close>

theorem fetch_failure_keeps_state_witness:
  "(\<forall>d. surahIndex (answering FetchRejects FetchRejects)
          (events (reading alFatihah) @ [SetLoading True]) surahListUrl \<noteq> Json 200 d)
   \<and> (\<forall>d. surahDetail (answering JsonRejects JsonRejects)
          (events (reading alFatihah) @ [SetLoading True]) (surahUrl 114) \<noteq> Json 200 d)
   \<and> (\<forall>d. surahDetail (answering (Json 404 []) (Json 404 anNas))
          (events (reading alFatihah) @ [SetLoading True]) (surahUrl 114) \<noteq> Json 200 d)
   \<and> fst (fetchSurahs (answering FetchRejects FetchRejects) (reading alFatihah)) = Resolved ()
   \<and> surahs (store (snd (fetchSurahs (answering FetchRejects FetchRejects)
        (reading alFatihah)))) = []
   \<and> fst (fetchAyahs (answering JsonRejects JsonRejects) 114 (reading alFatihah)) = Resolved ()
   \<and> selectedSurah (store (snd (fetchAyahs (answering JsonRejects JsonRejects) 114
        (reading alFatihah)))) = Some alFatihah
   \<and> fst (fetchAyahs (answering (Json 404 []) (Json 404 anNas)) 114 (reading alFatihah))
        = Resolved ()
   \<and> selectedSurah (store (snd (fetchAyahs (answering (Json 404 []) (Json 404 anNas)) 114
        (reading alFatihah)))) = Some alFatihah
   \<and> added (reading alFatihah) (snd (fetchAyahs (answering (Json 404 []) (Json 404 anNas)) 114
        (reading alFatihah)))
      = [SetLoading True, Fetch (surahUrl 114), ConsoleError ''Failed to fetch ayahs:'',
         SetLoading False]"
proof -
  let ?w = "reading alFatihah"
  let ?off = "answering FetchRejects FetchRejects"
  let ?bad = "answering JsonRejects JsonRejects"
  let ?nf = "answering (Json 404 []) (Json 404 anNas)"
  have h1: "\<forall>d. surahIndex ?off (events ?w @ [SetLoading True]) surahListUrl \<noteq> Json 200 d"
    and h2: "\<forall>d. surahDetail ?bad (events ?w @ [SetLoading True]) (surahUrl 114) \<noteq> Json 200 d"
    and h3: "\<forall>d. surahDetail ?nf (events ?w @ [SetLoading True]) (surahUrl 114) \<noteq> Json 200 d"
    by (simp_all add: answering_def)
  note t1 = fetch_failure_keeps_state [of ?off ?w 114, THEN conjunct1, THEN mp, OF h1]
  note t2 = fetch_failure_keeps_state [of ?bad ?w 114, THEN conjunct2, THEN mp, OF h2]
  note t3 = fetch_failure_keeps_state [of ?nf ?w 114, THEN conjunct2, THEN mp, OF h3]
  from t1 have a: "fst (fetchSurahs ?off ?w) = Resolved ()"
    and b: "surahs (store (snd (fetchSurahs ?off ?w))) = []"
    by simp_all
  from t2 have c: "fst (fetchAyahs ?bad 114 ?w) = Resolved ()"
    and d: "selectedSurah (store (snd (fetchAyahs ?bad 114 ?w))) = Some alFatihah"
    by simp_all
  from t3 have e: "fst (fetchAyahs ?nf 114 ?w) = Resolved ()"
    and f: "selectedSurah (store (snd (fetchAyahs ?nf 114 ?w))) = Some alFatihah"
    by simp_all
  have g: "added ?w (snd (fetchAyahs ?nf 114 ?w))
      = [SetLoading True, Fetch (surahUrl 114), ConsoleError ''Failed to fetch ayahs:'',
         SetLoading False]"
    by (simp add: fetchAyahs_added answering_def)
  from h1 h2 h3 a b c d e f g show ?thesis by (intro conjI)
qed

text \<open>
  Claim C5, as stated, fails. Chapter 113 is loaded, the user presses its first verse,
  and while that verse plays chapter 114 is selected and arrives: the selected verse is
  still the verse of chapter 113, the store still holds sound 0, and no call was made on
  that sound.
\<close>

theorem fetchAyahs_keeps_cursor_and_sound:
  "selectedSurah (store (run [pressAyah (serving [] anNas) (verse 6226 1),
        fetchAyahs (serving [] anNas) 114] (reading alFalaq))) = Some anNas
   \<and> selectedAyah (store (run [pressAyah (serving [] anNas) (verse 6226 1),
        fetchAyahs (serving [] anNas) 114] (reading alFalaq))) = Some (verse 6226 1)
   \<and> sound (store (run [pressAyah (serving [] anNas) (verse 6226 1),
        fetchAyahs (serving [] anNas) 114] (reading alFalaq))) = Some 0
   \<and> events (run [pressAyah (serving [] anNas) (verse 6226 1),
        fetchAyahs (serving [] anNas) 114] (reading alFalaq))
     = [CreateAsync (audioUri (verse 6226 1)) True (Some 0), SetSound (Some 0),
        SetSelectedAyah (Some (verse 6226 1)), SetOnPlaybackStatusUpdate 0,
        SetLoading True, Fetch (surahUrl 114), SetSelectedSurah (Some anNas), SetLoading False]"
  by (simp add: pressAyah_serving releaseCalls_def fetchAyahs_unfold setter_defs)

text \<open>
  Claim C5, amended. In both documents \<open>fetchAyahs\<close> leaves the selected verse and the
  sound of the store as they are and makes no call on any sound, whatever was playing;
  when the answer carries code 200 the chapter sent becomes the selected chapter.
\<close>

theorem fetchAyahs_leaves_playback:
  "selectedAyah (store (snd (fetchAyahs p n w))) = selectedAyah (store w)
   \<and> sound (store (snd (fetchAyahs p n w))) = sound (store w)
   \<and> filter isSoundCall (added w (snd (fetchAyahs p n w))) = []
   \<and> (\<forall>d. surahDetail p (events w @ [SetLoading True]) (surahUrl n) = Json 200 d
         \<longrightarrow> selectedSurah (store (snd (fetchAyahs p n w))) = Some d)
   \<and> selectedAyah (store (snd (fetchAyahs1 p n w))) = selectedAyah (store w)
   \<and> sound (store (snd (fetchAyahs1 p n w))) = sound (store w)
   \<and> filter isSoundCall (added w (snd (fetchAyahs1 p n w))) = []
   \<and> (\<forall>d. surahDetail p (events w @ [SetLoading True]) (surahUrl n) = Json 200 d
         \<longrightarrow> selectedSurah (store (snd (fetchAyahs1 p n w))) = Some d)"
proof (intro conjI allI impI)
  show "selectedAyah (store (snd (fetchAyahs p n w))) = selectedAyah (store w)"
    by (simp add: fetchAyahs_unfold setter_defs split: Response.split)
  show "sound (store (snd (fetchAyahs p n w))) = sound (store w)"
    by (simp add: fetchAyahs_unfold setter_defs split: Response.split)
  show "filter isSoundCall (added w (snd (fetchAyahs p n w))) = []"
    by (simp add: fetchAyahs_added split: Response.split)
  show "selectedAyah (store (snd (fetchAyahs1 p n w))) = selectedAyah (store w)"
    by (simp add: fetchAyahs1_unfold setter_defs split: Response.split)
  show "sound (store (snd (fetchAyahs1 p n w))) = sound (store w)"
    by (simp add: fetchAyahs1_unfold setter_defs split: Response.split)
  show "filter isSoundCall (added w (snd (fetchAyahs1 p n w))) = []"
    by (simp add: fetchAyahs1_added split: Response.split)
next
  fix d assume "surahDetail p (events w @ [SetLoading True]) (surahUrl n) = Json 200 d"
  then show "selectedSurah (store (snd (fetchAyahs p n w))) = Some d"
    by (rule fetchAyahs_loads)
next
  fix d assume "surahDetail p (events w @ [SetLoading True]) (surahUrl n) = Json 200 d"
  then show "selectedSurah (store (snd (fetchAyahs1 p n w))) = Some d"
    by (simp add: fetchAyahs1_unfold setter_defs)
qed

text \<open>While a verse of chapter 113 plays, chapter 114 is asked for and arrives.\<close>

theorem fetchAyahs_leaves_playback_witness:
  "surahDetail (serving [] anNas)
       (events (run [pressAyah (serving [] anNas) (verse 6226 1)] (reading alFalaq))
          @ [SetLoading True]) (surahUrl 114) = Json 200 anNas
   \<and> selectedSurah (store (snd (fetchAyahs (serving [] anNas) 114
        (run [pressAyah (serving [] anNas) (verse 6226 1)] (reading alFalaq))))) = Some anNas
   \<and> selectedSurah (store (snd (fetchAyahs1 (serving [] anNas) 114
        (run [pressAyah (serving [] anNas) (verse 6226 1)] (reading alFalaq))))) = Some anNas"
proof -
  let ?P = "serving [] anNas"
  let ?w = "run [pressAyah ?P (verse 6226 1)] (reading alFalaq)"
  have h: "surahDetail ?P (events ?w @ [SetLoading True]) (surahUrl 114) = Json 200 anNas"
    by simp
  note t = fetchAyahs_leaves_playback [of ?P 114 ?w]
  from t h have a: "selectedSurah (store (snd (fetchAyahs ?P 114 ?w))) = Some anNas"
    by blast
  from t h have b: "selectedSurah (store (snd (fetchAyahs1 ?P 114 ?w))) = Some anNas"
    by blast
  from h a b show ?thesis by (intro conjI)
qed

section \<open>Playback\<close>

text \<open>
  Claim C9. The address \<open>playAudio\<close> asks a sound for is the base address, the reciter
  and the verse's global \<open>number\<close> followed by \<open>.mp3\<close>; the number within the chapter
  plays no part in it. In both documents every sound \<open>playAudio\<close> asks for has this
  address, and when the platform rejects none of the calls a new sound for it is in the
  store, the verse is the selected verse, and the sound carries the callback for it.
\<close>

theorem audio_addressed_by_global_number:
  "audioUri v = baseAudioUrl @ ''/'' @ reciterId @ ''/'' @ toString (Ayah.number v) @ ''.mp3''
   \<and> audioUri (v\<lparr>numberInSurah := k\<rparr>) = audioUri v
   \<and> set (createdUris (added w (snd (playAudio p r v w)))) \<subseteq> {audioUri v}
   \<and> set (createdUris (added w (snd (playAudio1 p r v w)))) \<subseteq> {audioUri v}
   \<and> (cooperates p r v w \<longrightarrow> startedPlaying True r w (snd (playAudio p r v w)) v)
   \<and> (cooperates1 p r v w \<longrightarrow> startedPlaying False r w (snd (playAudio1 p r v w)) v)"
proof (intro conjI impI)
  show "audioUri v
      = baseAudioUrl @ ''/'' @ reciterId @ ''/'' @ toString (Ayah.number v) @ ''.mp3''"
    by (simp add: audioUri_def baseAudioUrl_def reciterId_def)
  show "audioUri (v\<lparr>numberInSurah := k\<rparr>) = audioUri v"
    by (simp add: audioUri_def)
  show "set (createdUris (added w (snd (playAudio p r v w)))) \<subseteq> {audioUri v}"
    by (rule playAudio_asks_only_for_ayah)
  show "set (createdUris (added w (snd (playAudio1 p r v w)))) \<subseteq> {audioUri v}"
    by (rule playAudio1_asks_only_for_ayah)
  show "startedPlaying True r w (snd (playAudio p r v w)) v" if "cooperates p r v w"
    using that by (rule playAudio_startedPlaying)
  show "startedPlaying False r w (snd (playAudio1 p r v w)) v" if "cooperates1 p r v w"
    using that by (rule playAudio1_startedPlaying)
qed

text \<open>The last verse of chapter 114: number 6 within the chapter, global number 6236.\<close>

theorem audio_addressed_by_global_number_witness:
  "audioUri (verse 6236 6) = ''https://cdn.islamic.network/quran/audio/128/ar.alafasy/6236.mp3''
   \<and> cooperates (serving [] anNas) (store (reading anNas)) (verse 6236 6) (reading anNas)
   \<and> cooperates1 (serving [] anNas) (store (reading anNas)) (verse 6236 6) (reading anNas)
   \<and> startedPlaying True (store (reading anNas)) (reading anNas)
        (snd (playAudio (serving [] anNas) (store (reading anNas)) (verse 6236 6)
           (reading anNas))) (verse 6236 6)
   \<and> startedPlaying False (store (reading anNas)) (reading anNas)
        (snd (playAudio1 (serving [] anNas) (store (reading anNas)) (verse 6236 6)
           (reading anNas))) (verse 6236 6)"
proof -
  note t = audio_addressed_by_global_number [of "verse 6236 6" 6 "reading anNas"
      "serving [] anNas" "store (reading anNas)"]
  have c: "cooperates (serving [] anNas) (store (reading anNas)) (verse 6236 6) (reading anNas)"
    and c1: "cooperates1 (serving [] anNas) (store (reading anNas)) (verse 6236 6)
      (reading anNas)"
    by (rule serving_cooperates)+
  from t [THEN conjunct1] have u: "audioUri (verse 6236 6)
      = ''https://cdn.islamic.network/quran/audio/128/ar.alafasy/6236.mp3''"
    by (simp add: baseAudioUrl_def reciterId_def toString_samples)
  from t c have a: "startedPlaying True (store (reading anNas)) (reading anNas)
        (snd (playAudio (serving [] anNas) (store (reading anNas)) (verse 6236 6)
           (reading anNas))) (verse 6236 6)"
    by blast
  from t c1 have b: "startedPlaying False (store (reading anNas)) (reading anNas)
        (snd (playAudio1 (serving [] anNas) (store (reading anNas)) (verse 6236 6)
           (reading anNas))) (verse 6236 6)"
    by blast
  from u c c1 a b show ?thesis by (intro conjI)
qed

text \<open>
  Claim C1 against the code. Second document, on a platform on which \<open>stopAsync\<close>
  rejects for a sound that has been unloaded: chapter 1 is loaded, the user presses its
  first verse and then its second, and the second sound plays to its end. Chapter 1 is
  still loaded, and the second verse, which has a successor, is the selected verse and
  is played by sound 1. The callback calls \<open>playAudio\<close> of the render in which the second
  verse was pressed. The \<open>sound\<close> of that render is sound 0, which that very call of
  \<open>playAudio\<close> stopped and unloaded before it created sound 1 (lines 375 to 378). So
  \<open>stopAsync\<close> is called on sound 0 once more and rejects, the rejection is logged, and
  that is all: the selected verse is still the second one and the sound in the store is
  still sound 1. On the same platform the callback does advance when the verse was
  pressed in a render without a sound, and the first document, which only calls
  \<open>unloadAsync\<close> on the sound of its render, advances to the third verse after the same
  two presses. On a platform that rejects nothing the second document advances too; the
  sound it stops and unloads on the way is again sound 0, not the one that has finished.
\<close>

theorem auto_advance_stops_after_second_press:
  "selectedSurah (store (run [pressAyah (strictServing [] alFatihah) (verse 1 1),
        pressAyah (strictServing [] alFatihah) (verse 2 2)] (reading alFatihah)))
     = Some alFatihah
   \<and> playing (run [pressAyah (strictServing [] alFatihah) (verse 1 1),
        pressAyah (strictServing [] alFatihah) (verse 2 2)] (reading alFatihah)) 1
        (store (run [pressAyah (strictServing [] alFatihah) (verse 1 1)] (reading alFatihah)))
        (ayahs alFatihah ! 1)
   \<and> added (run [pressAyah (strictServing [] alFatihah) (verse 1 1),
        pressAyah (strictServing [] alFatihah) (verse 2 2)] (reading alFatihah))
        (run [pressAyah (strictServing [] alFatihah) (verse 1 1),
              pressAyah (strictServing [] alFatihah) (verse 2 2),
              statusUpdate (strictServing [] alFatihah) 1 finished] (reading alFatihah))
      = [StopAsync 0, ConsoleError ''Error playing audio:'']
   \<and> selectedAyah (store (run [pressAyah (strictServing [] alFatihah) (verse 1 1),
        pressAyah (strictServing [] alFatihah) (verse 2 2),
        statusUpdate (strictServing [] alFatihah) 1 finished] (reading alFatihah)))
      = Some (verse 2 2)
   \<and> sound (store (run [pressAyah (strictServing [] alFatihah) (verse 1 1),
        pressAyah (strictServing [] alFatihah) (verse 2 2),
        statusUpdate (strictServing [] alFatihah) 1 finished] (reading alFatihah)))
      = Some 1
   \<and> selectedAyah (store (run [pressAyah (strictServing [] alFatihah) (verse 1 1),
        statusUpdate (strictServing [] alFatihah) 0 finished] (reading alFatihah)))
      = Some (verse 2 2)
   \<and> selectedAyah (store (run [pressAyah1 (strictServing [] alFatihah) (verse 1 1),
        pressAyah1 (strictServing [] alFatihah) (verse 2 2),
        statusUpdate1 (strictServing [] alFatihah) 1 finished] (reading alFatihah)))
      = Some (verse 3 3)
   \<and> added (run [pressAyah (serving [] alFatihah) (verse 1 1),
        pressAyah (serving [] alFatihah) (verse 2 2)] (reading alFatihah))
        (run [pressAyah (serving [] alFatihah) (verse 1 1),
              pressAyah (serving [] alFatihah) (verse 2 2),
              statusUpdate (serving [] alFatihah) 1 finished] (reading alFatihah))
      = [StopAsync 0, UnloadAsync 0,
         CreateAsync (audioUri (verse 3 3)) True (Some 2), SetSound (Some 2),
         SetSelectedAyah (Some (verse 3 3)), SetOnPlaybackStatusUpdate 2]"
proof -
  let ?P = "strictServing [] alFatihah"
  let ?S = "serving [] alFatihah"
  let ?r0 = "store (reading alFatihah)"
  let ?w1 = "snd (pressAyah ?P (verse 1 1) (reading alFatihah))"
  let ?w2 = "snd (pressAyah ?P (verse 2 2) ?w1)"
  let ?w3 = "snd (statusUpdate ?P 1 finished ?w2)"
  let ?u1 = "snd (pressAyah1 ?P (verse 1 1) (reading alFatihah))"
  let ?u2 = "snd (pressAyah1 ?P (verse 2 2) ?u1)"
  let ?v1 = "snd (pressAyah ?S (verse 1 1) (reading alFatihah))"
  let ?v2 = "snd (pressAyah ?S (verse 2 2) ?v1)"
  have w1: "?w1 = (reading alFatihah)\<lparr>
       store := ?r0\<lparr>sound := Some 0, selectedAyah := Some (verse 1 1)\<rparr>,
       events := [CreateAsync (audioUri (verse 1 1)) True (Some 0), SetSound (Some 0),
          SetSelectedAyah (Some (verse 1 1)), SetOnPlaybackStatusUpdate 0],
       sounds := Suc 0,
       callbacks := [0 \<mapsto> (?r0, verse 1 1)]\<rparr>"
    by (simp add: pressAyah_def playAudio_cooperates strictServing_cooperates releaseCalls_def)
  have st1: "sound (store ?w1) = Some 0" "selectedSurah (store ?w1) = Some alFatihah"
    and ev1: "events ?w1 = [CreateAsync (audioUri (verse 1 1)) True (Some 0), SetSound (Some 0),
          SetSelectedAyah (Some (verse 1 1)), SetOnPlaybackStatusUpdate 0]"
    and n1: "sounds ?w1 = Suc 0"
    and cb1: "callbacks ?w1 0 = Some (?r0, verse 1 1)"
    by (simp_all only: w1) simp_all
  have w2: "?w2 = ?w1\<lparr>
       store := (store ?w1)\<lparr>sound := Some 1, selectedAyah := Some (verse 2 2)\<rparr>,
       events := events ?w1 @ [StopAsync 0, UnloadAsync 0,
          CreateAsync (audioUri (verse 2 2)) True (Some 1), SetSound (Some 1),
          SetSelectedAyah (Some (verse 2 2)), SetOnPlaybackStatusUpdate 1],
       sounds := Suc (Suc 0),
       callbacks := (callbacks ?w1)(1 \<mapsto> (store ?w1, verse 2 2))\<rparr>"
    by (simp add: pressAyah_def playAudio_cooperates strictServing_cooperates releaseCalls_def
        st1 ev1 n1)
  have sel2: "selectedSurah (store ?w2) = Some alFatihah"
    and cur2: "selectedAyah (store ?w2) = Some (verse 2 2)"
    and snd2: "sound (store ?w2) = Some 1"
    and cb2: "callbacks ?w2 1 = Some (store ?w1, verse 2 2)"
    and un2: "UnloadAsync 0 \<in> set (events ?w2)"
    by (simp_all only: w2) (simp_all add: st1)
  have step: "statusUpdate ?P 1 finished ?w2 = playAudio ?P (store ?w1) (verse 3 3) ?w2"
    using cb2 by (simp add: statusUpdate_def finished_def onPlaybackStatusUpdate_def st1
        findIndex_def element_def)
  have w3: "?w3 = ?w2\<lparr>events := events ?w2 @ [StopAsync 0, ConsoleError ''Error playing audio:'']\<rparr>"
    by (simp only: step) (simp add: playAudio_stop_rejected [OF st1(1)] un2)
  have a: "selectedSurah (store (run [pressAyah ?P (verse 1 1), pressAyah ?P (verse 2 2)]
        (reading alFatihah))) = Some alFatihah"
    using sel2 by simp
  have b: "playing (run [pressAyah ?P (verse 1 1), pressAyah ?P (verse 2 2)]
        (reading alFatihah)) 1 (store (run [pressAyah ?P (verse 1 1)] (reading alFatihah)))
        (ayahs alFatihah ! 1)"
    using snd2 cur2 cb2 by (simp add: playing_def)
  have c: "added (run [pressAyah ?P (verse 1 1), pressAyah ?P (verse 2 2)] (reading alFatihah))
        (run [pressAyah ?P (verse 1 1), pressAyah ?P (verse 2 2),
              statusUpdate ?P 1 finished] (reading alFatihah))
      = [StopAsync 0, ConsoleError ''Error playing audio:'']"
    using w3 by simp
  have d: "selectedAyah (store (run [pressAyah ?P (verse 1 1), pressAyah ?P (verse 2 2),
        statusUpdate ?P 1 finished] (reading alFatihah))) = Some (verse 2 2)"
    and e: "sound (store (run [pressAyah ?P (verse 1 1), pressAyah ?P (verse 2 2),
        statusUpdate ?P 1 finished] (reading alFatihah))) = Some 1"
    using w3 by (simp_all add: cur2 snd2)
  have step0: "statusUpdate ?P 0 finished ?w1 = playAudio ?P ?r0 (verse 2 2) ?w1"
    using cb1 by (simp add: statusUpdate_def finished_def onPlaybackStatusUpdate_def
        findIndex_def element_def)
  have f: "selectedAyah (store (run [pressAyah ?P (verse 1 1),
        statusUpdate ?P 0 finished] (reading alFatihah))) = Some (verse 2 2)"
    using step0 by (simp add: playAudio_cooperates strictServing_cooperates)
  have u1: "?u1 = (reading alFatihah)\<lparr>
       store := ?r0\<lparr>sound := Some 0, selectedAyah := Some (verse 1 1)\<rparr>,
       events := [CreateAsync (audioUri (verse 1 1)) False (Some 0), SetSound (Some 0),
          SetSelectedAyah (Some (verse 1 1)), PlayAsync 0, SetOnPlaybackStatusUpdate 0],
       sounds := Suc 0,
       callbacks := [0 \<mapsto> (?r0, verse 1 1)]\<rparr>"
    by (simp add: pressAyah1_def playAudio1_cooperates strictServing_cooperates releaseCalls1_def)
  have su1: "sound (store ?u1) = Some 0" "selectedSurah (store ?u1) = Some alFatihah"
    and eu1: "events ?u1 = [CreateAsync (audioUri (verse 1 1)) False (Some 0), SetSound (Some 0),
          SetSelectedAyah (Some (verse 1 1)), PlayAsync 0, SetOnPlaybackStatusUpdate 0]"
    and nu1: "sounds ?u1 = Suc 0"
    by (simp_all only: u1) simp_all
  have u2: "?u2 = ?u1\<lparr>
       store := (store ?u1)\<lparr>sound := Some 1, selectedAyah := Some (verse 2 2)\<rparr>,
       events := events ?u1 @ [UnloadAsync 0,
          CreateAsync (audioUri (verse 2 2)) False (Some 1), SetSound (Some 1),
          SetSelectedAyah (Some (verse 2 2)), PlayAsync 1, SetOnPlaybackStatusUpdate 1],
       sounds := Suc (Suc 0),
       callbacks := (callbacks ?u1)(1 \<mapsto> (store ?u1, verse 2 2))\<rparr>"
    by (simp add: pressAyah1_def playAudio1_cooperates strictServing_cooperates releaseCalls1_def
        su1 eu1 nu1)
  have cbu2: "callbacks ?u2 1 = Some (store ?u1, verse 2 2)"
    and eu2: "UnloadAsync 2 \<notin> set (events ?u2)"
    and nu2: "sounds ?u2 = 2"
    by (simp_all only: u2) (simp_all add: eu1)
  have stepu: "statusUpdate1 ?P 1 finished ?u2 = playAudio1 ?P (store ?u1) (verse 3 3) ?u2"
    using cbu2 by (simp add: statusUpdate1_def finished_def onPlaybackStatusUpdate1_def su1
        findIndex_def element_def)
  have g: "selectedAyah (store (run [pressAyah1 ?P (verse 1 1), pressAyah1 ?P (verse 2 2),
        statusUpdate1 ?P 1 finished] (reading alFatihah))) = Some (verse 3 3)"
    using stepu by (simp add: playAudio1_cooperates strictServing_cooperates eu2 nu2 su1)
  have sv1: "sound (store ?v1) = Some 0" "selectedSurah (store ?v1) = Some alFatihah"
    by (simp_all add: pressAyah_serving)
  have cbv2: "callbacks ?v2 1 = Some (store ?v1, verse 2 2)" and nv2: "sounds ?v2 = 2"
    by (simp_all add: pressAyah_serving)
  have stepv: "statusUpdate ?S 1 finished ?v2 = playAudio ?S (store ?v1) (verse 3 3) ?v2"
    using cbv2 by (simp add: statusUpdate_def finished_def onPlaybackStatusUpdate_def sv1
        findIndex_def element_def)
  have "added ?v2 (snd (statusUpdate ?S 1 finished ?v2))
      = [StopAsync 0, UnloadAsync 0,
         CreateAsync (audioUri (verse 3 3)) True (Some 2), SetSound (Some 2),
         SetSelectedAyah (Some (verse 3 3)), SetOnPlaybackStatusUpdate 2]"
    by (simp only: stepv) (simp add: playAudio_cooperates releaseCalls_def sv1 nv2 added_def)
  then have h: "added (run [pressAyah ?S (verse 1 1), pressAyah ?S (verse 2 2)]
        (reading alFatihah))
        (run [pressAyah ?S (verse 1 1), pressAyah ?S (verse 2 2),
              statusUpdate ?S 1 finished] (reading alFatihah))
      = [StopAsync 0, UnloadAsync 0,
         CreateAsync (audioUri (verse 3 3)) True (Some 2), SetSound (Some 2),
         SetSelectedAyah (Some (verse 3 3)), SetOnPlaybackStatusUpdate 2]"
    by simp
  from a b c d e f g h show ?thesis by (intro conjI)
qed

text \<open>
  Claim C10, as stated, fails. Chapter 113 is loaded and the user presses its first
  verse; the list reaches its end and chapter 114 is loaded; then the sound finishes.
  The finished verse does not occur in the loaded chapter 114, yet the verse played next
  is the second verse of chapter 113, not the first verse of chapter 114: the callback
  reads the chapter of the render in which the verse was pressed.
\<close>

theorem callback_reads_chapter_of_its_render:
  "selectedSurah (store (run [pressAyah (serving [] anNas) (verse 6226 1),
        onEndReached (serving [] anNas)] (reading alFalaq))) = Some anNas
   \<and> Ayah.number (verse 6226 1) \<notin> Ayah.number ` set (ayahs anNas)
   \<and> hd (ayahs anNas) = verse 6231 1
   \<and> selectedAyah (store (run [pressAyah (serving [] anNas) (verse 6226 1),
        onEndReached (serving [] anNas),
        statusUpdate (serving [] anNas) 0 finished] (reading alFalaq))) = Some (verse 6227 2)
   \<and> selectedSurah (store (run [pressAyah (serving [] anNas) (verse 6226 1),
        onEndReached (serving [] anNas),
        statusUpdate (serving [] anNas) 0 finished] (reading alFalaq))) = Some anNas"
proof -
  let ?P = "serving [] anNas"
  let ?r = "store (reading alFalaq)"
  let ?w1 = "snd (pressAyah ?P (verse 6226 1) (reading alFalaq))"
  let ?w2 = "snd (onEndReached ?P ?w1)"
  have nxt: "fetchNextSurah ?P (store ?w1) ?w1 = fetchAyahs ?P 114 ?w1"
    by (simp add: fetchNextSurah_def pressAyah_serving)
  have w2: "?w2 = snd (fetchAyahs ?P 114 ?w1)"
    by (simp only: onEndReached_def nxt)
  have sel2: "selectedSurah (store ?w2) = Some anNas"
    and cur2: "selectedAyah (store ?w2) = Some (verse 6226 1)"
    and cb2: "callbacks ?w2 0 = Some (?r, verse 6226 1)"
    by (simp_all only: w2) (simp_all add: fetchAyahs_unfold setter_defs pressAyah_serving)
  have step: "statusUpdate ?P 0 finished ?w2 = playAudio ?P ?r (verse 6227 2) ?w2"
    by (simp add: statusUpdate_def cb2 finished_def onPlaybackStatusUpdate_def findIndex_def
        element_def)
  have st3: "store (snd (statusUpdate ?P 0 finished ?w2))
      = (store ?w2)\<lparr>sound := Some (sounds ?w2), selectedAyah := Some (verse 6227 2)\<rparr>"
    by (simp only: step) (simp add: playAudio_cooperates)
  show ?thesis
    by (simp add: sel2 st3)
qed

text \<open>
  Claim C10, amended. In every world the user can reach a callback is registered for a
  verse of the chapter of its own render (\<open>registered_callback_verse\<close> above), say for
  verse \<open>i\<close> of chapter \<open>ss\<close>, whose verses have distinct global numbers. Let the loaded
  chapter have changed since to \<open>cur\<close>, in which the global number of that verse does not
  occur. In the verse list of \<open>cur\<close> the lookup would give \<open>-1\<close>; the lookup the callback
  makes runs in \<open>ss\<close> and gives \<open>i\<close>. In both documents the callback is the call
  \<open>playAudio\<close> of its render for verse \<open>i + 1\<close> of \<open>ss\<close>, and nothing at all when verse
  \<open>i\<close> is the last verse of \<open>ss\<close>: playback does not restart at the first verse of
  \<open>cur\<close>. The loaded chapter is \<open>cur\<close> afterwards as before.
\<close>

theorem finished_after_chapter_change:
  assumes "selectedSurah (store w) = Some cur"
    and "Ayah.number (ayahs ss ! i) \<notin> Ayah.number ` set (ayahs cur)"
    and "callbacks w s = Some (r, ayahs ss ! i)"
    and "selectedSurah r = Some ss"
    and "i < length (ayahs ss)"
    and "distinct (map Ayah.number (ayahs ss))"
  shows "findIndex (\<lambda>a. Ayah.number a = Ayah.number (ayahs ss ! i)) (ayahs cur) = - 1
    \<and> findIndex (\<lambda>a. Ayah.number a = Ayah.number (ayahs ss ! i)) (ayahs ss) = int i
    \<and> statusUpdate p s (AVPlaybackStatusSuccess True) w
        = (if Suc i < length (ayahs ss) then playAudio p r (ayahs ss ! Suc i) w
           else (Resolved (), w))
    \<and> statusUpdate1 p s (AVPlaybackStatusSuccess True) w
        = (if Suc i < length (ayahs ss) then playAudio1 p r (ayahs ss ! Suc i) w
           else (Resolved (), w))
    \<and> selectedSurah (store (snd (statusUpdate p s (AVPlaybackStatusSuccess True) w))) = Some cur
    \<and> selectedSurah (store (snd (statusUpdate1 p s (AVPlaybackStatusSuccess True) w))) = Some cur"
proof (intro conjI)
  note nxt = statusUpdate_next [OF assms(3-6)]
  from assms(2)
  show "findIndex (\<lambda>a. Ayah.number a = Ayah.number (ayahs ss ! i)) (ayahs cur) = - 1"
    by (rule findIndex_absent)
  from assms(5,6)
  show "findIndex (\<lambda>a. Ayah.number a = Ayah.number (ayahs ss ! i)) (ayahs ss) = int i"
    by (simp add: findIndex_distinct)
  show "statusUpdate p s (AVPlaybackStatusSuccess True) w
        = (if Suc i < length (ayahs ss) then playAudio p r (ayahs ss ! Suc i) w
           else (Resolved (), w))"
    by (rule nxt(1))
  show "statusUpdate1 p s (AVPlaybackStatusSuccess True) w
        = (if Suc i < length (ayahs ss) then playAudio1 p r (ayahs ss ! Suc i) w
           else (Resolved (), w))"
    by (rule nxt(2))
  from assms(1)
  show "selectedSurah (store (snd (statusUpdate p s (AVPlaybackStatusSuccess True) w))) = Some cur"
    by (simp add: nxt(1) playAudio_keeps_chapter)
  from assms(1)
  show "selectedSurah (store (snd (statusUpdate1 p s (AVPlaybackStatusSuccess True) w))) = Some cur"
    by (simp add: nxt(2) playAudio_keeps_chapter)
qed

text \<open>
  Chapter 113 is loaded and the user presses its first verse; the list reaches its end
  and chapter 114 is loaded; then the sound finishes: the callback plays the second verse
  of chapter 113. When the verse pressed is the last one of chapter 113, the callback
  does nothing. Both worlds are ones the user can reach.
\<close>

theorem finished_after_chapter_change_witness:
  "reachable (serving [] anNas)
     (run [pressAyah (serving [] anNas) (verse 6226 1), onEndReached (serving [] anNas)]
        (reading alFalaq))
   \<and> selectedSurah (store (run [pressAyah (serving [] anNas) (verse 6226 1),
        onEndReached (serving [] anNas)] (reading alFalaq))) = Some anNas
   \<and> Ayah.number (ayahs alFalaq ! 0) \<notin> Ayah.number ` set (ayahs anNas)
   \<and> callbacks (run [pressAyah (serving [] anNas) (verse 6226 1),
        onEndReached (serving [] anNas)] (reading alFalaq)) 0
      = Some (store (reading alFalaq), ayahs alFalaq ! 0)
   \<and> selectedSurah (store (reading alFalaq)) = Some alFalaq
   \<and> (0::nat) < length (ayahs alFalaq)
   \<and> distinct (map Ayah.number (ayahs alFalaq))
   \<and> statusUpdate (serving [] anNas) 0 (AVPlaybackStatusSuccess True)
        (run [pressAyah (serving [] anNas) (verse 6226 1), onEndReached (serving [] anNas)]
           (reading alFalaq))
      = playAudio (serving [] anNas) (store (reading alFalaq)) (verse 6227 2)
        (run [pressAyah (serving [] anNas) (verse 6226 1), onEndReached (serving [] anNas)]
           (reading alFalaq))
   \<and> selectedSurah (store (run [pressAyah (serving [] anNas) (verse 6226 1),
        onEndReached (serving [] anNas),
        statusUpdate (serving [] anNas) 0 (AVPlaybackStatusSuccess True)] (reading alFalaq)))
      = Some anNas
   \<and> reachable (serving [] anNas)
     (run [pressAyah (serving [] anNas) (verse 6230 5), onEndReached (serving [] anNas)]
        (reading alFalaq))
   \<and> selectedSurah (store (run [pressAyah (serving [] anNas) (verse 6230 5),
        onEndReached (serving [] anNas)] (reading alFalaq))) = Some anNas
   \<and> Ayah.number (ayahs alFalaq ! 4) \<notin> Ayah.number ` set (ayahs anNas)
   \<and> callbacks (run [pressAyah (serving [] anNas) (verse 6230 5),
        onEndReached (serving [] anNas)] (reading alFalaq)) 0
      = Some (store (reading alFalaq), ayahs alFalaq ! 4)
   \<and> (4::nat) < length (ayahs alFalaq)
   \<and> statusUpdate (serving [] anNas) 0 (AVPlaybackStatusSuccess True)
        (run [pressAyah (serving [] anNas) (verse 6230 5), onEndReached (serving [] anNas)]
           (reading alFalaq))
      = (Resolved (),
         run [pressAyah (serving [] anNas) (verse 6230 5), onEndReached (serving [] anNas)]
           (reading alFalaq))"
proof -
  let ?P = "serving [] anNas"
  let ?r = "store (reading alFalaq)"
  let ?w = "run [pressAyah ?P (verse 6226 1), onEndReached ?P] (reading alFalaq)"
  let ?v = "run [pressAyah ?P (verse 6230 5), onEndReached ?P] (reading alFalaq)"
  have r0: "reachable ?P (reading alFalaq)"
    by (rule reachable.start) simp
  from r0 have "reachable ?P (snd (pressAyah ?P (verse 6226 1) (reading alFalaq)))"
    by (rule reachable.ayah [where d = alFalaq]) simp_all
  then have "reachable ?P (snd (onEndReached ?P
      (snd (pressAyah ?P (verse 6226 1) (reading alFalaq)))))"
    by (rule reachable.endReached)
  then have re: "reachable ?P ?w" by simp
  from r0 have "reachable ?P (snd (pressAyah ?P (verse 6230 5) (reading alFalaq)))"
    by (rule reachable.ayah [where d = alFalaq]) simp_all
  then have "reachable ?P (snd (onEndReached ?P
      (snd (pressAyah ?P (verse 6230 5) (reading alFalaq)))))"
    by (rule reachable.endReached)
  then have re': "reachable ?P ?v" by simp
  have cur: "selectedSurah (store ?w) = Some anNas"
    and cur': "selectedSurah (store ?v) = Some anNas"
    by (simp_all only: after_swap) (simp_all add: fetchAyahs_unfold setter_defs)
  have out: "Ayah.number (ayahs alFalaq ! 0) \<notin> Ayah.number ` set (ayahs anNas)"
    and out': "Ayah.number (ayahs alFalaq ! 4) \<notin> Ayah.number ` set (ayahs anNas)"
    by simp_all
  have cb: "callbacks ?w 0 = Some (?r, ayahs alFalaq ! 0)"
    and cb': "callbacks ?v 0 = Some (?r, ayahs alFalaq ! 4)"
    by (simp_all only: after_swap) (simp_all add: callbacks_fetch pressAyah_serving)
  have sel: "selectedSurah ?r = Some alFalaq" by simp
  have i: "(0::nat) < length (ayahs alFalaq)" and i': "(4::nat) < length (ayahs alFalaq)"
    by simp_all
  have dist: "distinct (map Ayah.number (ayahs alFalaq))" by simp
  note t = finished_after_chapter_change [OF cur out cb sel i dist, of ?P]
  note t' = finished_after_chapter_change [OF cur' out' cb' sel i' dist, of ?P]
  from t [THEN conjunct2, THEN conjunct2, THEN conjunct1]
  have a: "statusUpdate ?P 0 (AVPlaybackStatusSuccess True) ?w
      = playAudio ?P ?r (verse 6227 2) ?w"
    by simp
  from t [THEN conjunct2, THEN conjunct2, THEN conjunct2, THEN conjunct2, THEN conjunct1]
  have a': "selectedSurah (store (run [pressAyah ?P (verse 6226 1), onEndReached ?P,
        statusUpdate ?P 0 (AVPlaybackStatusSuccess True)] (reading alFalaq))) = Some anNas"
    by simp
  from t' [THEN conjunct2, THEN conjunct2, THEN conjunct1]
  have b: "statusUpdate ?P 0 (AVPlaybackStatusSuccess True) ?v = (Resolved (), ?v)"
    by simp
  from re cur out cb sel i dist a a' re' cur' out' cb' i' b show ?thesis by (intro conjI)
qed

text \<open>
  Claim C4 against the code. Second document: the user presses the first verse of
  chapter 1 and the sound plays to its end. The callback calls \<open>playAudio\<close> of the render
  in which the verse was pressed, whose \<open>sound\<close> is still empty: a second sound is
  created and the first is neither stopped nor unloaded, so two sounds exist. First
  document: the user presses the first verse and then the second; the first sound is
  unloaded, and never stopped.
\<close>

theorem finished_sound_is_not_released:
  "events (run [pressAyah (serving [] alFatihah) (verse 1 1),
                statusUpdate (serving [] alFatihah) 0 finished] (reading alFatihah))
     = [CreateAsync (audioUri (verse 1 1)) True (Some 0), SetSound (Some 0),
        SetSelectedAyah (Some (verse 1 1)), SetOnPlaybackStatusUpdate 0,
        CreateAsync (audioUri (verse 2 2)) True (Some 1), SetSound (Some 1),
        SetSelectedAyah (Some (verse 2 2)), SetOnPlaybackStatusUpdate 1]
   \<and> liveSounds (events (run [pressAyah (serving [] alFatihah) (verse 1 1),
                statusUpdate (serving [] alFatihah) 0 finished] (reading alFatihah))) = [0, 1]
   \<and> events (run [pressAyah1 (serving [] alFatihah) (verse 1 1),
                pressAyah1 (serving [] alFatihah) (verse 2 2)] (reading alFatihah))
     = [CreateAsync (audioUri (verse 1 1)) False (Some 0), SetSound (Some 0),
        SetSelectedAyah (Some (verse 1 1)), PlayAsync 0, SetOnPlaybackStatusUpdate 0,
        UnloadAsync 0,
        CreateAsync (audioUri (verse 2 2)) False (Some 1), SetSound (Some 1),
        SetSelectedAyah (Some (verse 2 2)), PlayAsync 1, SetOnPlaybackStatusUpdate 1]"
proof -
  let ?P = "serving [] alFatihah"
  let ?r = "store (reading alFatihah)"
  let ?w1 = "snd (pressAyah ?P (verse 1 1) (reading alFatihah))"
  have cb: "callbacks ?w1 0 = Some (?r, verse 1 1)"
    by (simp add: pressAyah_serving)
  have step: "statusUpdate ?P 0 finished ?w1 = playAudio ?P ?r (verse 2 2) ?w1"
    by (simp add: statusUpdate_def cb finished_def onPlaybackStatusUpdate_def findIndex_def
        element_def)
  have w2: "events (snd (statusUpdate ?P 0 finished ?w1)) =
      [CreateAsync (audioUri (verse 1 1)) True (Some 0), SetSound (Some 0),
        SetSelectedAyah (Some (verse 1 1)), SetOnPlaybackStatusUpdate 0,
        CreateAsync (audioUri (verse 2 2)) True (Some 1), SetSound (Some 1),
        SetSelectedAyah (Some (verse 2 2)), SetOnPlaybackStatusUpdate 1]"
    by (simp only: step) (simp add: playAudio_cooperates pressAyah_serving releaseCalls_def)
  have v2: "events (snd (pressAyah1 ?P (verse 2 2) (snd (pressAyah1 ?P (verse 1 1)
        (reading alFatihah))))) =
      [CreateAsync (audioUri (verse 1 1)) False (Some 0), SetSound (Some 0),
        SetSelectedAyah (Some (verse 1 1)), PlayAsync 0, SetOnPlaybackStatusUpdate 0,
        UnloadAsync 0,
        CreateAsync (audioUri (verse 2 2)) False (Some 1), SetSound (Some 1),
        SetSelectedAyah (Some (verse 2 2)), PlayAsync 1, SetOnPlaybackStatusUpdate 1]"
    by (simp add: pressAyah1_serving releaseCalls1_def)
  show ?thesis
    by (simp add: w2 v2 liveSounds_def)
qed

text \<open>
  Claim C6 against the code. The user presses the first verse of chapter 1 and then the
  back button. In the first document the chapter and the sound are cleared and the
  selected verse stays; in the second document the store is back at its initial state.
\<close>

theorem back_keeps_cursor_in_first_document:
  "store (run [pressAyah1 (serving [] alFatihah) (verse 1 1), pressBack1 (serving [] alFatihah)]
            (reading alFatihah))
     = initialState\<lparr>selectedAyah := Some (verse 1 1)\<rparr>
   \<and> store (run [pressAyah (serving [] alFatihah) (verse 1 1), pressBack (serving [] alFatihah)]
            (reading alFatihah))
     = initialState"
proof -
  let ?P = "serving [] alFatihah"
  have a: "store (snd (pressBack1 ?P (snd (pressAyah1 ?P (verse 1 1) (reading alFatihah)))))
      = initialState\<lparr>selectedAyah := Some (verse 1 1)\<rparr>"
    by (simp add: pressBack1_def pressAyah1_serving handleBackPress1_cooperates
        initialState_def)
  have b: "store (snd (pressBack ?P (snd (pressAyah ?P (verse 1 1) (reading alFatihah)))))
      = initialState"
    by (simp add: pressBack_def pressAyah_serving handleBackPress_cooperates initialState_def)
  show ?thesis by (simp add: a b)
qed

section \<open>What the second document does for sounds the user replaces or leaves\<close>

text \<open>
  When the user presses a verse and the platform rejects none of the calls, the sound of
  the store is stopped and then unloaded before the new sound is created, and the new
  sound plays the verse; if the sound of the store was the only live one before, the new
  sound is the only live one after.
\<close>

theorem press_replaces_sound:
  assumes "cooperates p (store w) a w"
  shows "fst (pressAyah p a w) = Resolved ()
    \<and> added w (snd (pressAyah p a w)) = releaseCalls (store w) @
         [CreateAsync (audioUri a) True (Some (sounds w)), SetSound (Some (sounds w)),
          SetSelectedAyah (Some a), SetOnPlaybackStatusUpdate (sounds w)]
    \<and> startedPlaying True (store w) w (snd (pressAyah p a w)) a
    \<and> (liveSounds (events w) = (case sound (store w) of Some s \<Rightarrow> [s] | None \<Rightarrow> []) \<longrightarrow>
         liveSounds (events (snd (pressAyah p a w))) = [sounds w])"
proof (intro conjI impI)
  show "fst (pressAyah p a w) = Resolved ()"
    using assms by (simp add: pressAyah_def playAudio_cooperates)
  show "added w (snd (pressAyah p a w)) = releaseCalls (store w) @
         [CreateAsync (audioUri a) True (Some (sounds w)), SetSound (Some (sounds w)),
          SetSelectedAyah (Some a), SetOnPlaybackStatusUpdate (sounds w)]"
    using assms by (simp add: pressAyah_def playAudio_cooperates added_def)
  show "startedPlaying True (store w) w (snd (pressAyah p a w)) a"
    using assms by (simp add: pressAyah_def playAudio_startedPlaying)
  assume "liveSounds (events w) = (case sound (store w) of Some s \<Rightarrow> [s] | None \<Rightarrow> [])"
  with assms show "liveSounds (events (snd (pressAyah p a w))) = [sounds w]"
    by (cases "sound (store w)")
       (simp_all add: pressAyah_def playAudio_cooperates liveSounds_append releaseCalls_def)
qed

text \<open>The user presses the first verse of chapter 1 and then the second.\<close>

theorem press_replaces_sound_witness:
  "cooperates (serving [] alFatihah) (store (run [pressAyah (serving [] alFatihah) (verse 1 1)]
        (reading alFatihah))) (verse 2 2)
        (run [pressAyah (serving [] alFatihah) (verse 1 1)] (reading alFatihah))
   \<and> added (run [pressAyah (serving [] alFatihah) (verse 1 1)] (reading alFatihah))
        (run [pressAyah (serving [] alFatihah) (verse 1 1),
              pressAyah (serving [] alFatihah) (verse 2 2)] (reading alFatihah))
      = [StopAsync 0, UnloadAsync 0, CreateAsync (audioUri (verse 2 2)) True (Some 1),
         SetSound (Some 1), SetSelectedAyah (Some (verse 2 2)), SetOnPlaybackStatusUpdate 1]
   \<and> liveSounds (events (run [pressAyah (serving [] alFatihah) (verse 1 1)]
        (reading alFatihah))) = [0]
   \<and> liveSounds (events (run [pressAyah (serving [] alFatihah) (verse 1 1),
              pressAyah (serving [] alFatihah) (verse 2 2)] (reading alFatihah))) = [1]"
proof -
  let ?P = "serving [] alFatihah"
  let ?w = "run [pressAyah ?P (verse 1 1)] (reading alFatihah)"
  have c: "cooperates ?P (store ?w) (verse 2 2) ?w" by (rule serving_cooperates)
  have l: "liveSounds (events ?w) = [0]"
    by (simp add: pressAyah_serving liveSounds_def releaseCalls_def)
  have l': "liveSounds (events ?w) = (case sound (store ?w) of Some s \<Rightarrow> [s] | None \<Rightarrow> [])"
    by (simp add: pressAyah_serving liveSounds_def releaseCalls_def)
  note t = press_replaces_sound [OF c]
  from t [THEN conjunct2, THEN conjunct1]
  have a: "added ?w (run [pressAyah ?P (verse 1 1), pressAyah ?P (verse 2 2)]
      (reading alFatihah))
      = [StopAsync 0, UnloadAsync 0, CreateAsync (audioUri (verse 2 2)) True (Some 1),
         SetSound (Some 1), SetSelectedAyah (Some (verse 2 2)), SetOnPlaybackStatusUpdate 1]"
    by (simp add: pressAyah_serving releaseCalls_def)
  from t [THEN conjunct2, THEN conjunct2, THEN conjunct2, THEN mp, OF l']
  have b: "liveSounds (events (run [pressAyah ?P (verse 1 1), pressAyah ?P (verse 2 2)]
      (reading alFatihah))) = [1]"
    by (simp add: pressAyah_serving)
  from c a l b show ?thesis by (intro conjI)
qed

text \<open>
  When the user presses the back button and the platform rejects neither the stop nor
  the unload of the sound of the store, that sound is stopped, then unloaded, then
  cleared from the store, and the selected verse and the selected chapter are cleared;
  with no sound in the store only the verse and the chapter are cleared.
\<close>

theorem back_releases_and_clears:
  assumes "case sound (store w) of
             Some s \<Rightarrow> \<not> stopRejects p (events w) s
                       \<and> \<not> unloadRejects p (events w @ [StopAsync s]) s
           | None \<Rightarrow> True"
  shows "fst (pressBack p w) = Resolved ()
    \<and> added w (snd (pressBack p w)) =
        (case sound (store w) of
           Some s \<Rightarrow> [StopAsync s, UnloadAsync s, SetSound None]
         | None \<Rightarrow> [])
        @ [SetSelectedAyah None, SetSelectedSurah None]
    \<and> sound (store (snd (pressBack p w))) = None
    \<and> selectedAyah (store (snd (pressBack p w))) = None
    \<and> selectedSurah (store (snd (pressBack p w))) = None"
  using assms
  by (cases "sound (store w)")
     (simp_all add: pressBack_def handleBackPress_cooperates added_def)

text \<open>The user presses the first verse of chapter 1 and then the back button.\<close>

theorem back_releases_and_clears_witness:
  "\<not> stopRejects (serving [] alFatihah)
        (events (run [pressAyah (serving [] alFatihah) (verse 1 1)] (reading alFatihah))) 0
   \<and> \<not> unloadRejects (serving [] alFatihah)
        (events (run [pressAyah (serving [] alFatihah) (verse 1 1)] (reading alFatihah))
           @ [StopAsync 0]) 0
   \<and> added (run [pressAyah (serving [] alFatihah) (verse 1 1)] (reading alFatihah))
        (run [pressAyah (serving [] alFatihah) (verse 1 1), pressBack (serving [] alFatihah)]
           (reading alFatihah))
      = [StopAsync 0, UnloadAsync 0, SetSound None, SetSelectedAyah None, SetSelectedSurah None]
   \<and> store (run [pressAyah (serving [] alFatihah) (verse 1 1), pressBack (serving [] alFatihah)]
           (reading alFatihah)) = initialState"
proof -
  let ?P = "serving [] alFatihah"
  let ?w = "run [pressAyah ?P (verse 1 1)] (reading alFatihah)"
  have h: "case sound (store ?w) of
             Some s \<Rightarrow> \<not> stopRejects ?P (events ?w) s
                       \<and> \<not> unloadRejects ?P (events ?w @ [StopAsync s]) s
           | None \<Rightarrow> True"
    by (simp split: option.split)
  note t = back_releases_and_clears [OF h]
  from t [THEN conjunct2, THEN conjunct1]
  have a: "added ?w (run [pressAyah ?P (verse 1 1), pressBack ?P] (reading alFatihah))
      = [StopAsync 0, UnloadAsync 0, SetSound None, SetSelectedAyah None, SetSelectedSurah None]"
    by (simp add: pressAyah_serving)
  have b: "store (run [pressAyah ?P (verse 1 1), pressBack ?P] (reading alFatihah))
      = initialState"
    by (simp add: pressBack_def pressAyah_serving handleBackPress_cooperates initialState_def)
  show ?thesis using a b by simp
qed

text \<open>
  \<open>playAudio\<close> of the second document never rejects: when the platform rejects one of
  its calls, the error is logged last, and the store and the number of sounds are as
  before.
\<close>

theorem playAudio_swallows_rejections:
  "fst (playAudio p r a w) = Resolved ()
   \<and> (\<not> cooperates p r a w \<longrightarrow>
        store (snd (playAudio p r a w)) = store w
      \<and> sounds (snd (playAudio p r a w)) = sounds w
      \<and> last (events (snd (playAudio p r a w))) = ConsoleError ''Error playing audio:'')"
  by (cases "sound r")
     (simp_all add: playAudio_def cooperates_def releaseCalls_def async_defs setter_defs
        sound_defs)

text \<open>A platform that rejects every \<open>createAsync\<close>.\<close>

theorem playAudio_swallows_rejections_witness:
  "\<not> cooperates (mute (serving [] alFatihah)) (store (reading alFatihah)) (verse 1 1)
        (reading alFatihah)
   \<and> fst (playAudio (mute (serving [] alFatihah)) (store (reading alFatihah)) (verse 1 1)
        (reading alFatihah)) = Resolved ()
   \<and> events (snd (playAudio (mute (serving [] alFatihah)) (store (reading alFatihah))
        (verse 1 1) (reading alFatihah)))
      = [CreateAsync (audioUri (verse 1 1)) True None, ConsoleError ''Error playing audio:'']
   \<and> store (snd (playAudio (mute (serving [] alFatihah)) (store (reading alFatihah))
        (verse 1 1) (reading alFatihah)))
      = store (reading alFatihah)"
proof -
  let ?P = "mute (serving [] alFatihah)"
  let ?r = "store (reading alFatihah)"
  have n: "\<not> cooperates ?P ?r (verse 1 1) (reading alFatihah)"
    by (simp add: cooperates_def mute_def)
  note t = playAudio_swallows_rejections [of ?P ?r "verse 1 1" "reading alFatihah"]
  from t have a: "fst (playAudio ?P ?r (verse 1 1) (reading alFatihah)) = Resolved ()"
    by blast
  from t n have b: "store (snd (playAudio ?P ?r (verse 1 1) (reading alFatihah))) = ?r"
    by blast
  have c: "events (snd (playAudio ?P ?r (verse 1 1) (reading alFatihah)))
      = [CreateAsync (audioUri (verse 1 1)) True None, ConsoleError ''Error playing audio:'']"
    by (simp add: playAudio_def async_defs setter_defs sound_defs mute_def)
  from n a c b show ?thesis by (intro conjI)
qed

end
